theory Spec2Isabelle
  imports Complex_Main
begin

section \<open>The PVC banner generator (src/main.ts)\<close>

text \<open>
  A shallow embedding of \<^verbatim>\<open>main.ts\<close>: the unit conversion \<^verbatim>\<open>mmToPoints\<close>, the colour
  table of \<^verbatim>\<open>getColor\<close>, and the body of \<^verbatim>\<open>generatePDF\<close>, whose calls of
  \<^verbatim>\<open>page.drawRectangle\<close>, \<^verbatim>\<open>page.drawCircle\<close> and \<^verbatim>\<open>page.drawText\<close> are recorded, in
  program order, as a list of drawing operations.

  Numbers. A TypeScript \<^verbatim>\<open>number\<close> is a binary64 floating-point number. Two readings
  of the source's arithmetic are kept side by side.
  \<^item> Every coordinate that is handed to the page is the source's formula, with the same
    association of the operators, read in exact arithmetic over \<^typ>\<open>real\<close>. There the
    rounding of the doubles moves a value by a few units in its last place and is left
    out.
  \<^item> Where the program decides on a computed number (the comparison
    \<^verbatim>\<open>distance >= minDistance\<close> and \<^verbatim>\<open>Math.floor(distance / minDistance)\<close>), one unit in
    the last place changes the outcome. The operands of these two decisions are computed
    as the source computes them: every operation and every decimal literal is rounded to
    the nearest double, ties to even (\<open>double\<close> below). The names of these values end
    in \<open>64\<close>.
  Results beyond the largest double (about \<open>1.8e308\<close>), which the program turns into
  \<^verbatim>\<open>Infinity\<close>, are outside the model. The loop counters and the result of
  \<^verbatim>\<open>Math.floor\<close> are integers (\<^typ>\<open>int\<close>), array indices are \<^typ>\<open>nat\<close>.

  The page-description library. The option objects handed to pdf-lib are kept field by
  field. The library accumulates the primitives and does not inspect the geometry; the
  page made by \<^verbatim>\<open>addPage([w, h])\<close> reports \<^verbatim>\<open>getSize() = {width: w, height: h}\<close>. The
  embedded font is a parameter: whichever font the fallback chain of the source ends up
  with, its \<^verbatim>\<open>widthOfTextAtSize\<close> is an arbitrary function from a text run and a size to
  a width. A measurement or a drawing call that fails inside the library is outside the
  model, as are the log messages and the writing of the file.
\<close>

subsection \<open>Unit conversion\<close>

text \<open>\<^verbatim>\<open>function mmToPoints(mm) { return (mm / 25.4) * 72; }\<close>\<close>

definition mmToPoints :: "real \<Rightarrow> real" where
  "mmToPoints mm = (mm / 25.4) * 72"

text \<open>
  The source has no function for the opposite direction; it converts a spacing back to
  millimetres inline, in its two log messages, as \<^verbatim>\<open>(horizontalSpacing * 25.4 / 72)\<close> and
  \<^verbatim>\<open>(verticalSpacing * 25.4 / 72)\<close>. That expression is named here.
\<close>

definition pointsToMm :: "real \<Rightarrow> real" where
  "pointsToMm points = points * 25.4 / 72"

subsection \<open>Binary64 arithmetic\<close>

text \<open>
  Rounding a real to the nearest integer, ties to the even one.
\<close>

definition round_half_even :: "real \<Rightarrow> int" where
  "round_half_even x =
    (let f = \<lfloor>x\<rfloor>; r = x - of_int f
     in if r < 1 / 2 then f else if 1 / 2 < r then f + 1 else if even f then f else f + 1)"

text \<open>
  The exponent of the binade of a magnitude \<open>a\<close>: the largest \<open>e\<close> from \<open>n - 1022\<close>
  down to \<open>- 1021\<close> with \<open>2 ^ e \<le> a\<close>, and \<open>- 1022\<close>, the exponent of the smallest
  normal binade and of the subnormal numbers, when there is none. With \<open>n = 2045\<close> the
  search starts at 1023, the largest exponent of a double.
\<close>

fun binade :: "nat \<Rightarrow> real \<Rightarrow> int" where
  "binade 0 a = - 1022"
| "binade (Suc n) a =
    (if 2 powi (int (Suc n) - 1022) \<le> a then int (Suc n) - 1022 else binade n a)"

text \<open>
  The double nearest to a real: in the binade of exponent \<open>e\<close> the doubles are the
  multiples of \<open>2 ^ (e - 52)\<close>, and the real is rounded to the nearest of them, ties to
  the one with an even significand.
\<close>

definition double :: "real \<Rightarrow> real" where
  "double x =
    (let e = binade 2045 \<bar>x\<bar>;
         quantum = 2 powi (e - 52)
     in of_int (round_half_even (x / quantum)) * quantum)"

text \<open>
  \<^verbatim>\<open>mmToPoints\<close> as the program evaluates it on a double \<open>mm\<close>: the literal \<^verbatim>\<open>25.4\<close>,
  the division and the multiplication are each rounded (\<^verbatim>\<open>72\<close> is a double).
\<close>

definition mmToPoints64 :: "real \<Rightarrow> real" where
  "mmToPoints64 mm = double (double (mm / double 25.4) * 72)"

subsection \<open>Colours\<close>

type_synonym tuple4 = "real \<times> real \<times> real \<times> real"

text \<open>The object literal \<^verbatim>\<open>colors\<close> of \<^verbatim>\<open>getColor\<close>: its own properties, in source order.\<close>

definition colors :: "(string \<times> tuple4) list" where
  "colors =
    [(''black'', (0, 0, 0, 1)),
     (''white'', (0, 0, 0, 0)),
     (''red'', (0, 1, 1, 0)),
     (''blue'', (1, 0, 0, 0)),
     (''yellow'', (0, 0, 1, 0)),
     (''green'', (1, 0, 1, 0)),
     (''orange'', (0, 0.5, 1, 0)),
     (''purple'', (0.5, 1, 0, 0)),
     (''pink'', (0, 0.7, 0.2, 0)),
     (''cyan'', (1, 0, 0.2, 0)),
     (''magenta'', (0, 1, 0, 0)),
     (''lime'', (0.5, 0, 1, 0)),
     (''navy'', (1, 0.5, 0, 0.2)),
     (''maroon'', (0.2, 1, 1, 0.2)),
     (''teal'', (1, 0.2, 0.5, 0)),
     (''olive'', (0.3, 0.2, 1, 0.1)),
     (''silver'', (0, 0, 0, 0.25)),
     (''gold'', (0, 0.2, 0.8, 0.1))]"

text \<open>
  \<^verbatim>\<open>colors\<close> is an ordinary object, so the property read \<^verbatim>\<open>colors[colorName]\<close> also
  finds what the object inherits from \<^verbatim>\<open>Object.prototype\<close>. These are the function-valued
  members that ECMAScript gives every ordinary object (ECMA-262, 20.1.3 and B.2.2; the
  accessor \<^verbatim>\<open>__proto__\<close> is not listed: the Deno runtime, which this program is written
  for, deletes it at start-up).
\<close>

definition objectPrototype :: "string list" where
  "objectPrototype =
    [''constructor'', ''hasOwnProperty'', ''isPrototypeOf'', ''propertyIsEnumerable'',
     ''toLocaleString'', ''toString'', ''valueOf'',
     ''__defineGetter__'', ''__defineSetter__'', ''__lookupGetter__'', ''__lookupSetter__'']"

text \<open>What a property read of \<^verbatim>\<open>colors\<close> can give.\<close>

datatype js_value =
    Undefined
  | Tuple tuple4
  | Builtin string

text \<open>\<^verbatim>\<open>colors[colorName]\<close>: own properties first, then the prototype, else \<^verbatim>\<open>undefined\<close>.\<close>

definition colors_get :: "string \<Rightarrow> js_value" where
  "colors_get colorName =
    (case map_of colors colorName of
       Some t \<Rightarrow> Tuple t
     | None \<Rightarrow> (if colorName \<in> set objectPrototype then Builtin colorName else Undefined))"

text \<open>Truthiness, as \<^verbatim>\<open>||\<close> tests it: arrays and functions are truthy, \<^verbatim>\<open>undefined\<close> is not.\<close>

fun truthy :: "js_value \<Rightarrow> bool" where
  "truthy Undefined = False"
| "truthy (Tuple t) = True"
| "truthy (Builtin f) = True"

text \<open>\<^verbatim>\<open>return colors[colorName] || colors['black'];\<close>\<close>

definition getColor :: "string \<Rightarrow> js_value" where
  "getColor colorName =
    (if truthy (colors_get colorName) then colors_get colorName else colors_get ''black'')"

datatype error = TypeError

text \<open>
  The array destructuring \<^verbatim>\<open>const [c, m, y, k] = getColor(name)\<close>: a tuple gives its four
  components; a value that is not iterable raises a \<^verbatim>\<open>TypeError\<close>.
\<close>

fun destructure :: "js_value \<Rightarrow> error + tuple4" where
  "destructure (Tuple t) = Inr t"
| "destructure Undefined = Inl TypeError"
| "destructure (Builtin f) = Inl TypeError"

subsection \<open>The page: drawing operations in program order\<close>

text \<open>\<^verbatim>\<open>cmyk(c, m, y, k)\<close> of pdf-lib builds a colour value from four components.\<close>

datatype color = cmyk real real real real

text \<open>
  One constructor per drawing call of the source, with the fields of its option object.
  \<^verbatim>\<open>drawRectangle\<close> is called once without and once with a border, hence the optional
  fields. \<^verbatim>\<open>drawText\<close> also receives the one embedded font on every call; it is the
  parameter \<open>customFont\<close> of the model and is not repeated in the record.
\<close>

datatype draw_op =
    is_rectangle: DrawRectangle (rect_x: real) (rect_y: real) (rect_width: real)
      (rect_height: real) (rect_color: color) (rect_borderColor: "color option")
      (rect_borderWidth: "real option")
  | is_circle: DrawCircle (circle_x: real) (circle_y: real) (circle_size: real)
      (circle_color: color)
  | is_text: DrawText (text_line: string) (text_x: real) (text_y: real) (text_size: real)
      (text_color: color)

subsection \<open>Constants of \<^verbatim>\<open>generatePDF\<close>\<close>

definition marginMm :: real where
  "marginMm = 25"

definition borderThickness :: real where
  "borderThickness = 0.5"

definition circleRadius :: real where
  "circleRadius = mmToPoints 6"

definition circleOffset :: real where
  "circleOffset = mmToPoints 37.5"

definition minDistanceMm :: real where
  "minDistanceMm = 500"

definition minDistance :: real where
  "minDistance = mmToPoints minDistanceMm"

text \<open>The two constants that enter the decisions of layer 4, as the program computes them.\<close>

definition circleOffset64 :: real where
  "circleOffset64 = mmToPoints64 37.5"

definition minDistance64 :: real where
  "minDistance64 = mmToPoints64 minDistanceMm"

subsection \<open>Layers 1 and 2: white base and inner rectangle\<close>

text \<open>
  In all of the following, \<open>width\<close> and \<open>height\<close> are the page size in points as
  \<^verbatim>\<open>page.getSize()\<close> returns it, \<open>fgColor\<close> stands for \<^verbatim>\<open>cmyk(fgC, fgM, fgY, fgK)\<close> and
  \<open>bgColor\<close> for \<^verbatim>\<open>cmyk(bgC, bgM, bgY, bgK)\<close>, which the source rebuilds at each call.
\<close>

definition baseLayer :: "real \<Rightarrow> real \<Rightarrow> draw_op list" where
  "baseLayer width height = [DrawRectangle 0 0 width height (cmyk 0 0 0 0) None None]"

definition innerRectangle :: "real \<Rightarrow> real \<Rightarrow> color \<Rightarrow> color \<Rightarrow> draw_op list" where
  "innerRectangle width height fgColor bgColor =
    (let margin = mmToPoints marginMm;
         rectX = margin;
         rectY = margin;
         rectWidth = width - (2 * margin);
         rectHeight = height - (2 * margin)
     in [DrawRectangle rectX rectY rectWidth rectHeight bgColor (Some fgColor)
           (Some (mmToPoints borderThickness))])"

subsection \<open>Layer 3: corner circles\<close>

definition cornerPositions :: "real \<Rightarrow> real \<Rightarrow> (real \<times> real) list" where
  "cornerPositions width height =
    [(circleOffset, circleOffset),
     (width - circleOffset, circleOffset),
     (circleOffset, height - circleOffset),
     (width - circleOffset, height - circleOffset)]"

definition cornerCircles :: "real \<Rightarrow> real \<Rightarrow> color \<Rightarrow> draw_op list" where
  "cornerCircles width height fgColor =
    map (\<lambda>pos. DrawCircle (fst pos) (snd pos) circleRadius fgColor)
      (cornerPositions width height)"

subsection \<open>Layer 4: intermediate circles\<close>

text \<open>
  Both blocks of the source compute the distance between two corner centres, compare it
  with \<^verbatim>\<open>minDistance\<close>, take \<^verbatim>\<open>Math.floor(distance / minDistance)\<close> and divide the distance
  by \<^verbatim>\<open>numIntermediateCircles + 1\<close>. The comparison and the floor are taken on the doubles
  of the program: \<open>width64\<close> and \<open>height64\<close> are the page size as the program holds it.
  The subtraction, the product \<^verbatim>\<open>2 * circleOffset\<close> and the quotient are each rounded.
\<close>

definition horizontalDistance64 :: "real \<Rightarrow> real" where
  "horizontalDistance64 width64 = double (width64 - double (2 * circleOffset64))"

definition verticalDistance64 :: "real \<Rightarrow> real" where
  "verticalDistance64 height64 = double (height64 - double (2 * circleOffset64))"

definition numIntermediateCircles :: "real \<Rightarrow> int" where
  "numIntermediateCircles distance64 = \<lfloor>double (distance64 / minDistance64)\<rfloor>"

text \<open>
  The spacing and the positions are coordinates: they are the source's formulas in exact
  arithmetic, for the count \<open>n\<close> that the program has computed.
\<close>

definition horizontalDistance :: "real \<Rightarrow> real" where
  "horizontalDistance width = width - (2 * circleOffset)"

definition horizontalSpacing :: "real \<Rightarrow> int \<Rightarrow> real" where
  "horizontalSpacing width n = horizontalDistance width / (of_int n + 1)"

definition verticalDistance :: "real \<Rightarrow> real" where
  "verticalDistance height = height - (2 * circleOffset)"

definition verticalSpacing :: "real \<Rightarrow> int \<Rightarrow> real" where
  "verticalSpacing height n = verticalDistance height / (of_int n + 1)"

text \<open>
  \<^verbatim>\<open>for (let i = 1; i <= numIntermediateCircles; i++)\<close> over the horizontal edges: the
  circle on the top edge, then the one on the bottom edge.
\<close>

function horizontalLoop :: "int \<Rightarrow> int \<Rightarrow> real \<Rightarrow> real \<Rightarrow> color \<Rightarrow> draw_op list" where
  "horizontalLoop i n spacing height fgColor =
    (if i \<le> n then
       (let x = circleOffset + (of_int i * spacing)
        in [DrawCircle x (height - circleOffset) circleRadius fgColor,
            DrawCircle x circleOffset circleRadius fgColor])
       @ horizontalLoop (i + 1) n spacing height fgColor
     else [])"
  by pat_completeness auto
termination
  by (relation "measure (\<lambda>(i, n, spacing, height, fgColor). nat (n + 1 - i))") auto

declare horizontalLoop.simps [simp del]

definition horizontalCircles :: "real \<Rightarrow> real \<Rightarrow> real \<Rightarrow> color \<Rightarrow> draw_op list" where
  "horizontalCircles width width64 height fgColor =
    (if horizontalDistance64 width64 \<ge> minDistance64 then
       (let n = numIntermediateCircles (horizontalDistance64 width64)
        in horizontalLoop 1 n (horizontalSpacing width n) height fgColor)
     else [])"

text \<open>The same over the vertical edges: left edge first, then right edge.\<close>

function verticalLoop :: "int \<Rightarrow> int \<Rightarrow> real \<Rightarrow> real \<Rightarrow> color \<Rightarrow> draw_op list" where
  "verticalLoop i n spacing width fgColor =
    (if i \<le> n then
       (let y = circleOffset + (of_int i * spacing)
        in [DrawCircle circleOffset y circleRadius fgColor,
            DrawCircle (width - circleOffset) y circleRadius fgColor])
       @ verticalLoop (i + 1) n spacing width fgColor
     else [])"
  by pat_completeness auto
termination
  by (relation "measure (\<lambda>(i, n, spacing, width, fgColor). nat (n + 1 - i))") auto

declare verticalLoop.simps [simp del]

definition verticalCircles :: "real \<Rightarrow> real \<Rightarrow> real \<Rightarrow> color \<Rightarrow> draw_op list" where
  "verticalCircles width height height64 fgColor =
    (if verticalDistance64 height64 \<ge> minDistance64 then
       (let n = numIntermediateCircles (verticalDistance64 height64)
        in verticalLoop 1 n (verticalSpacing height n) width fgColor)
     else [])"

subsection \<open>Text\<close>

text \<open>
  \<^verbatim>\<open>text.split('\n')\<close>: the pieces between the line feeds, empty pieces included; \<open>cur\<close>
  holds the current piece, reversed. The split only compares each character with the
  line feed, so it does not matter that a \<^typ>\<open>char\<close> is a byte and a character of the
  source a UTF-16 code unit.
\<close>

fun split_from :: "string \<Rightarrow> string \<Rightarrow> string list" where
  "split_from cur [] = [rev cur]"
| "split_from cur (c # cs) =
    (if c = CHR 0x0A then rev cur # split_from [] cs else split_from (c # cur) cs)"

definition split_newline :: "string \<Rightarrow> string list" where
  "split_newline text = split_from [] text"

definition fontSize :: "real \<Rightarrow> real" where
  "fontSize fontSizeMm = mmToPoints fontSizeMm"

definition lineSpacing :: "real \<Rightarrow> real" where
  "lineSpacing fontSizeMm = fontSize fontSizeMm * 1.3"

definition totalTextHeight :: "real \<Rightarrow> string list \<Rightarrow> real" where
  "totalTextHeight fontSizeMm lines =
    (let totalLines = real (length lines)
     in (totalLines - 1) * lineSpacing fontSizeMm + fontSize fontSizeMm)"

definition startY :: "bool \<Rightarrow> real \<Rightarrow> real \<Rightarrow> string list \<Rightarrow> real" where
  "startY centerText height fontSizeMm lines =
    (if centerText then
       (let middleOfPage = height / 2;
            totalBlockHeight = totalTextHeight fontSizeMm lines;
            halfLineHeight = lineSpacing fontSizeMm * 0.5;
            visualCenterOffset = fontSize fontSizeMm * 0.35
        in middleOfPage + (totalBlockHeight / 2) - visualCenterOffset - halfLineHeight)
     else height - mmToPoints 25)"

text \<open>
  \<^verbatim>\<open>lines.forEach((line, index) => ...)\<close>, with \<^verbatim>\<open>lineWidths\<close> computed beforehand for
  every line by the font. \<^verbatim>\<open>lineWidths\<close> is as long as \<^verbatim>\<open>lines\<close>, so the index is in
  range.
\<close>

definition textLayer ::
  "(string \<Rightarrow> real \<Rightarrow> real) \<Rightarrow> string \<Rightarrow> real \<Rightarrow> real \<Rightarrow> bool \<Rightarrow> real \<Rightarrow> color \<Rightarrow> draw_op list"
where
  "textLayer widthOfTextAtSize text width height centerText fontSizeMm fgColor =
    (let lines = split_newline text;
         lineWidths = map (\<lambda>line. widthOfTextAtSize line (fontSize fontSizeMm)) lines
     in map (\<lambda>(index, line).
              (let lineY = startY centerText height fontSizeMm lines
                             - (real index * lineSpacing fontSizeMm);
                   lineX = (if centerText then (width - lineWidths ! index) / 2
                            else mmToPoints (marginMm + 5))
               in DrawText line lineX lineY (fontSize fontSizeMm) fgColor))
          (enumerate 0 lines))"

subsection \<open>\<^verbatim>\<open>generatePDF\<close>\<close>

text \<open>
  The result is the content of the page that the source then saves under \<^verbatim>\<open>outputFile\<close>
  (a file name, not modelled), or the error raised before anything is drawn. \<open>width\<close>
  and \<open>width64\<close> are the two readings of the one program variable \<^verbatim>\<open>width\<close>, and
  likewise for the height.
\<close>

definition generatePDF ::
  "(string \<Rightarrow> real \<Rightarrow> real) \<Rightarrow> string \<Rightarrow> real \<Rightarrow> real \<Rightarrow> bool \<Rightarrow> real \<Rightarrow> string \<Rightarrow> string
    \<Rightarrow> error + draw_op list"
where
  "generatePDF widthOfTextAtSize text widthMm heightMm centerText fontSizeMm
      foregroundColor backgroundColor =
    (let width = mmToPoints widthMm;
         height = mmToPoints heightMm;
         width64 = mmToPoints64 widthMm;
         height64 = mmToPoints64 heightMm
     in case destructure (getColor foregroundColor) of
          Inl e \<Rightarrow> Inl e
        | Inr (fgC, fgM, fgY, fgK) \<Rightarrow>
            (case destructure (getColor backgroundColor) of
               Inl e \<Rightarrow> Inl e
             | Inr (bgC, bgM, bgY, bgK) \<Rightarrow>
                 Inr (baseLayer width height
                      @ innerRectangle width height (cmyk fgC fgM fgY fgK) (cmyk bgC bgM bgY bgK)
                      @ cornerCircles width height (cmyk fgC fgM fgY fgK)
                      @ horizontalCircles width width64 height (cmyk fgC fgM fgY fgK)
                      @ verticalCircles width height height64 (cmyk fgC fgM fgY fgK)
                      @ textLayer widthOfTextAtSize text width height centerText fontSizeMm
                          (cmyk fgC fgM fgY fgK))))"

subsection \<open>The distribution rule in the specification's words\<close>

text \<open>
  The specification states the intermediate circles in millimetres: the span between two
  corner centres, the number of circles per edge, and their offsets from the page edge.
  These three definitions follow its words; the theorems compare them with the source.
\<close>

definition spec_span :: "real \<Rightarrow> real" where
  "spec_span dimension_mm = dimension_mm - 2 * 37.5"

definition spec_count :: "real \<Rightarrow> int" where
  "spec_count dimension_mm =
    (if spec_span dimension_mm < 500 then 0 else \<lfloor>spec_span dimension_mm / 500\<rfloor>)"

definition spec_offsets :: "real \<Rightarrow> real list" where
  "spec_offsets dimension_mm =
    map (\<lambda>i. 37.5 + of_int i * spec_span dimension_mm / (of_int (spec_count dimension_mm) + 1))
      [1..spec_count dimension_mm]"

subsection \<open>Joining lines\<close>

text \<open>
  \<^verbatim>\<open>lines.join('\n')\<close>, the inverse of the split. The source does not call it; it
  serves to state that the split loses nothing of the text.
\<close>

fun join_newline :: "string list \<Rightarrow> string" where
  "join_newline [] = []"
| "join_newline [l] = l"
| "join_newline (l # l' # ls) = l @ CHR 0x0A # join_newline (l' # ls)"

subsection \<open>Notions for stating the claims\<close>

text \<open>
  The distance from a coordinate to the nearer of the two page edges across that axis,
  the one at \<open>0\<close> and the one at \<open>extent\<close>.
\<close>

definition nearest_edge_distance :: "real \<Rightarrow> real \<Rightarrow> real" where
  "nearest_edge_distance extent coordinate = min \<bar>coordinate\<bar> \<bar>extent - coordinate\<bar>"

text \<open>The operations of a run that returned a page; none for a run that raised.\<close>

definition page_of :: "error + draw_op list \<Rightarrow> draw_op list" where
  "page_of result = (case result of Inl e \<Rightarrow> [] | Inr ops \<Rightarrow> ops)"

text \<open>A font for the examples: every character is half as wide as the font size.\<close>

definition monospace :: "string \<Rightarrow> real \<Rightarrow> real" where
  "monospace line pointSize = real (length line) * pointSize / 2"

section \<open>Auxiliary facts\<close>

subsection \<open>Rounding to a double\<close>

text \<open>
  The binade search finds the exponent, and a double below \<open>2 ^ 52\<close> is evaluated from
  three facts about numerals: with \<open>k\<close> such that \<open>\<bar>x\<bar> * 2 ^ k\<close> lies between
  \<open>2 ^ 52\<close> and \<open>2 ^ 53\<close>, the double of \<open>x\<close> is \<open>x * 2 ^ k\<close> rounded to an
  integer, over \<open>2 ^ k\<close>.
\<close>

lemma powi2_less_iff: "(2::real) powi m < 2 powi n \<longleftrightarrow> m < n"
proof
  assume less: "(2::real) powi m < 2 powi n"
  show "m < n"
  proof (rule ccontr)
    assume "\<not> m < n"
    then have "(2::real) powi n \<le> 2 powi m"
      by (intro power_int_increasing) simp_all
    with less show False by simp
  qed
next
  assume "m < n"
  then show "(2::real) powi m < 2 powi n"
    by (intro power_int_strict_increasing) simp_all
qed

lemma binade_eq:
  assumes "- 1021 \<le> e" and "e \<le> int n - 1022" and "2 powi e \<le> a" and "a < 2 powi (e + 1)"
  shows "binade n a = e"
  using assms
proof (induction n)
  case 0
  then show ?case by simp
next
  case (Suc n)
  show ?case
  proof (cases "2 powi (int (Suc n) - 1022) \<le> a")
    case True
    with Suc.prems(4) have "(2::real) powi (int (Suc n) - 1022) < 2 powi (e + 1)" by simp
    then have "int (Suc n) - 1022 < e + 1"
      by (simp only: powi2_less_iff)
    with Suc.prems(2) have "int (Suc n) - 1022 = e" by simp
    with True show ?thesis by simp
  next
    case False
    with Suc.prems(3) have "(2::real) powi e < 2 powi (int (Suc n) - 1022)" by simp
    then have "e < int (Suc n) - 1022"
      by (simp only: powi2_less_iff)
    then have "e \<le> int n - 1022" by simp
    with Suc False show ?thesis by simp
  qed
qed

lemma powi2_diff: "(2::real) powi (int a - int b) = 2 ^ a / 2 ^ b"
  by (simp add: power_int_diff)

lemma double_eval:
  assumes k: "k \<le> 1073"
    and lo: "2 ^ 52 \<le> \<bar>x\<bar> * 2 ^ k" and hi: "\<bar>x\<bar> * 2 ^ k < 2 ^ 53"
    and m: "round_half_even (x * 2 ^ k) = m"
  shows "double x = of_int m / 2 ^ k"
proof -
  have q: "(2::real) powi (- int k) = 1 / 2 ^ k"
    using powi2_diff [of 0 k] by simp
  have e: "(2::real) powi (52 - int k) = 2 ^ 52 / 2 ^ k"
    using powi2_diff [of 52 k] by simp
  have e1: "(2::real) powi (52 - int k + 1) = 2 ^ 53 / 2 ^ k"
    using powi2_diff [of 53 k] by (simp add: algebra_simps)
  have "binade 2045 \<bar>x\<bar> = 52 - int k"
  proof (rule binade_eq)
    show "- 1021 \<le> 52 - int k" using k by simp
    show "52 - int k \<le> int 2045 - 1022" by simp
    show "2 powi (52 - int k) \<le> \<bar>x\<bar>"
      unfolding e using lo by (simp add: field_simps)
    show "\<bar>x\<bar> < 2 powi (52 - int k + 1)"
      unfolding e1 using hi by (simp add: field_simps)
  qed
  then show ?thesis
    using m by (simp add: double_def q Let_def)
qed

subsection \<open>The doubles of the decisions\<close>

text \<open>
  The values that the program computes on the way to its two decisions, for the page
  sizes used below. Each line is one rounded operation of the source.
\<close>

lemma double_25_4: "double (25.4) = 3574732204225331 / 2 ^ 47"
  using double_eval [of 48 "25.4" 7149464408450662]
  by (simp add: round_half_even_def Let_def)

lemma div_offset: "double (37.5 / (3574732204225331 / 2 ^ 47)) = 831126899736189 / 2 ^ 49"
  using double_eval [of 52 "37.5 / (3574732204225331 / 2 ^ 47)" 6649015197889512]
  by (simp add: round_half_even_def Let_def)

lemma mul_offset: "double ((831126899736189 / 2 ^ 49) * 72) = 7480142097625701 / 2 ^ 46"
  using double_eval [of 46 "(831126899736189 / 2 ^ 49) * 72" 7480142097625701]
  by (simp add: round_half_even_def Let_def)

lemma mmToPoints64_offset: "mmToPoints64 37.5 = 7480142097625701 / 2 ^ 46"
  by (simp only: mmToPoints64_def double_25_4 div_offset mul_offset)

lemma div_500: "double (500 / (3574732204225331 / 2 ^ 47)) = 1385211499560315 / 2 ^ 46"
  using double_eval [of 48 "500 / (3574732204225331 / 2 ^ 47)" 5540845998241260]
  by (simp add: round_half_even_def Let_def)

lemma mul_500: "double ((1385211499560315 / 2 ^ 46) * 72) = 3116725874010709 / 2 ^ 41"
  using double_eval [of 42 "(1385211499560315 / 2 ^ 46) * 72" 6233451748021418]
  by (simp add: round_half_even_def Let_def)

lemma mmToPoints64_500: "mmToPoints64 500 = 3116725874010709 / 2 ^ 41"
  by (simp only: mmToPoints64_def double_25_4 div_500 mul_500)

lemma double_offset: "double (2 * (7480142097625701 / 2 ^ 46)) = 7480142097625701 / 2 ^ 45"
  using double_eval [of 45 "2 * (7480142097625701 / 2 ^ 46)" 7480142097625701]
  by (simp add: round_half_even_def Let_def)

lemma div_575: "double (575 / (3574732204225331 / 2 ^ 47)) = 6371972897977449 / 2 ^ 48"
  using double_eval [of 48 "575 / (3574732204225331 / 2 ^ 47)" 6371972897977449]
  by (simp add: round_half_even_def Let_def)

lemma mul_575: "double ((6371972897977449 / 2 ^ 48) * 72) = 3584234755112315 / 2 ^ 41"
  using double_eval [of 42 "(6371972897977449 / 2 ^ 48) * 72" 7168469510224630]
  by (simp add: round_half_even_def Let_def)

lemma mmToPoints64_575: "mmToPoints64 575 = 3584234755112315 / 2 ^ 41"
  by (simp only: mmToPoints64_def double_25_4 div_575 mul_575)

lemma sub_575: "double (3584234755112315 / 2 ^ 41 - 7480142097625701 / 2 ^ 45) = 6233451748021417 / 2 ^ 42"
  using double_eval [of 42 "3584234755112315 / 2 ^ 41 - 7480142097625701 / 2 ^ 45" 6233451748021417]
  by (simp add: round_half_even_def Let_def)

lemma sub_500: "double (3116725874010709 / 2 ^ 41 - 7480142097625701 / 2 ^ 45) = 5298433985818205 / 2 ^ 42"
  using double_eval [of 42 "3116725874010709 / 2 ^ 41 - 7480142097625701 / 2 ^ 45" 5298433985818205]
  by (simp add: round_half_even_def Let_def)






lemma div_2075: "double (2075 / (3574732204225331 / 2 ^ 47)) = 5748627723175307 / 2 ^ 46"
  using double_eval [of 46 "2075 / (3574732204225331 / 2 ^ 47)" 5748627723175307]
  by (simp add: round_half_even_def Let_def)

lemma mul_2075: "double ((5748627723175307 / 2 ^ 46) * 72) = 1616801547143055 / 2 ^ 38"
  using double_eval [of 40 "(5748627723175307 / 2 ^ 46) * 72" 6467206188572220]
  by (simp add: round_half_even_def Let_def)

lemma mmToPoints64_2075: "mmToPoints64 2075 = 1616801547143055 / 2 ^ 38"
  by (simp only: mmToPoints64_def double_25_4 div_2075 mul_2075)

lemma sub_2075: "double (1616801547143055 / 2 ^ 38 - 7480142097625701 / 2 ^ 45) = 6233451748021417 / 2 ^ 40"
  using double_eval [of 40 "1616801547143055 / 2 ^ 38 - 7480142097625701 / 2 ^ 45" 6233451748021417]
  by (simp add: round_half_even_def Let_def)

lemma quot_2075: "double ((6233451748021417 / 2 ^ 40) / (3116725874010709 / 2 ^ 41)) = 9007199254740991 / 2 ^ 51"
  using double_eval [of 51 "(6233451748021417 / 2 ^ 40) / (3116725874010709 / 2 ^ 41)" 9007199254740991]
  by (simp add: round_half_even_def Let_def)

lemma div_3000: "double (3000 / (3574732204225331 / 2 ^ 47)) = 4155634498680945 / 2 ^ 45"
  using double_eval [of 46 "3000 / (3574732204225331 / 2 ^ 47)" 8311268997361890]
  by (simp add: round_half_even_def Let_def)

lemma mul_3000: "double ((4155634498680945 / 2 ^ 45) * 72) = 4675088811016063 / 2 ^ 39"
  using double_eval [of 39 "(4155634498680945 / 2 ^ 45) * 72" 4675088811016063]
  by (simp add: round_half_even_def Let_def)

lemma mmToPoints64_3000: "mmToPoints64 3000 = 4675088811016063 / 2 ^ 39"
  by (simp only: mmToPoints64_def double_25_4 div_3000 mul_3000)

lemma sub_3000: "double (4675088811016063 / 2 ^ 39 - 7480142097625701 / 2 ^ 45) = 4558211590740661 / 2 ^ 39"
  using double_eval [of 39 "4675088811016063 / 2 ^ 39 - 7480142097625701 / 2 ^ 45" 4558211590740661]
  by (simp add: round_half_even_def Let_def)

lemma quot_3000: "double ((4558211590740661 / 2 ^ 39) / (3116725874010709 / 2 ^ 41)) = 6586514455029349 / 2 ^ 50"
  using double_eval [of 50 "(4558211590740661 / 2 ^ 39) / (3116725874010709 / 2 ^ 41)" 6586514455029349]
  by (simp add: round_half_even_def Let_def)

lemma div_700: "double (700 / (3574732204225331 / 2 ^ 47)) = 1939296099384441 / 2 ^ 46"
  using double_eval [of 48 "700 / (3574732204225331 / 2 ^ 47)" 7757184397537764]
  by (simp add: round_half_even_def Let_def)

lemma mul_700: "double ((1939296099384441 / 2 ^ 46) * 72) = 272713513975937 / 2 ^ 37"
  using double_eval [of 42 "(1939296099384441 / 2 ^ 46) * 72" 8726832447229984]
  by (simp add: round_half_even_def Let_def)

lemma mmToPoints64_700: "mmToPoints64 700 = 272713513975937 / 2 ^ 37"
  by (simp only: mmToPoints64_def double_25_4 div_700 mul_700)

lemma sub_700: "double (272713513975937 / 2 ^ 37 - 7480142097625701 / 2 ^ 45) = 7791814685026771 / 2 ^ 42"
  using double_eval [of 42 "272713513975937 / 2 ^ 37 - 7480142097625701 / 2 ^ 45" 7791814685026771]
  by (simp add: round_half_even_def Let_def)

lemma quot_700: "double ((7791814685026771 / 2 ^ 42) / (3116725874010709 / 2 ^ 41)) = 5629499534213119 / 2 ^ 52"
  using double_eval [of 52 "(7791814685026771 / 2 ^ 42) / (3116725874010709 / 2 ^ 41)" 5629499534213119]
  by (simp add: round_half_even_def Let_def)

lemma circleOffset64_value: "circleOffset64 = 7480142097625701 / 2 ^ 46"
  by (simp only: circleOffset64_def mmToPoints64_offset)

lemma minDistance64_value: "minDistance64 = 3116725874010709 / 2 ^ 41"
  by (simp only: minDistance64_def minDistanceMm_def mmToPoints64_500)

lemma width_575_distance64: "horizontalDistance64 (mmToPoints64 575) = 6233451748021417 / 2 ^ 42"
  by (simp only: horizontalDistance64_def circleOffset64_value double_offset mmToPoints64_575 sub_575)

lemma width_575_guard: "horizontalDistance64 (mmToPoints64 575) < minDistance64"
  by (simp add: width_575_distance64 minDistance64_value)

lemma width_2075_distance64: "horizontalDistance64 (mmToPoints64 2075) = 6233451748021417 / 2 ^ 40"
  by (simp only: horizontalDistance64_def circleOffset64_value double_offset mmToPoints64_2075 sub_2075)

lemma width_2075_guard: "minDistance64 \<le> horizontalDistance64 (mmToPoints64 2075)"
  by (simp add: width_2075_distance64 minDistance64_value)

lemma width_2075_count: "numIntermediateCircles (horizontalDistance64 (mmToPoints64 2075)) = 3"
  by (simp only: width_2075_distance64 numIntermediateCircles_def minDistance64_value quot_2075) simp




lemma width_3000_distance64: "horizontalDistance64 (mmToPoints64 3000) = 4558211590740661 / 2 ^ 39"
  by (simp only: horizontalDistance64_def circleOffset64_value double_offset mmToPoints64_3000 sub_3000)

lemma width_3000_guard: "minDistance64 \<le> horizontalDistance64 (mmToPoints64 3000)"
  by (simp add: width_3000_distance64 minDistance64_value)

lemma width_3000_count: "numIntermediateCircles (horizontalDistance64 (mmToPoints64 3000)) = 5"
  by (simp only: width_3000_distance64 numIntermediateCircles_def minDistance64_value quot_3000) simp

lemma height_500_distance64: "verticalDistance64 (mmToPoints64 500) = 5298433985818205 / 2 ^ 42"
  by (simp only: verticalDistance64_def circleOffset64_value double_offset mmToPoints64_500 sub_500)

lemma height_500_guard: "verticalDistance64 (mmToPoints64 500) < minDistance64"
  by (simp add: height_500_distance64 minDistance64_value)

lemma height_700_distance64: "verticalDistance64 (mmToPoints64 700) = 7791814685026771 / 2 ^ 42"
  by (simp only: verticalDistance64_def circleOffset64_value double_offset mmToPoints64_700 sub_700)

lemma height_700_guard: "minDistance64 \<le> verticalDistance64 (mmToPoints64 700)"
  by (simp add: height_700_distance64 minDistance64_value)

lemma height_700_count: "numIntermediateCircles (verticalDistance64 (mmToPoints64 700)) = 1"
  by (simp only: height_700_distance64 numIntermediateCircles_def minDistance64_value quot_700) simp



subsection \<open>Unit conversion\<close>

lemma mmToPoints_diff: "mmToPoints (a - b) = mmToPoints a - mmToPoints b"
  by (simp add: mmToPoints_def field_simps)

lemma mmToPoints_mult: "mmToPoints (c * a) = c * mmToPoints a"
  by (simp add: mmToPoints_def)

lemma pointsToMm_mmToPoints: "pointsToMm (mmToPoints x) = x"
  by (simp add: pointsToMm_def mmToPoints_def)

lemma mmToPoints_scale: "mmToPoints a = a * (360 / 127)"
  by (simp add: mmToPoints_def)

lemma mmToPoints_affine:
  "mmToPoints a + j * (mmToPoints s / d) = mmToPoints (a + j * s / d)"
  unfolding mmToPoints_scale by (simp add: distrib_right)

lemma pointsToMm_quotient: "pointsToMm (mmToPoints s / d) = s / d"
  by (simp add: pointsToMm_def mmToPoints_def)

subsection \<open>The colour table\<close>

lemma getColor_black: "getColor ''black'' = Tuple (0, 0, 0, 1)"
  by (simp add: getColor_def colors_get_def colors_def)

lemma getColor_yellow: "getColor ''yellow'' = Tuple (0, 0, 1, 0)"
  by (simp add: getColor_def colors_get_def colors_def)

lemma getColor_red: "getColor ''red'' = Tuple (0, 1, 1, 0)"
  by (simp add: getColor_def colors_get_def colors_def)

lemma getColor_white: "getColor ''white'' = Tuple (0, 0, 0, 0)"
  by (simp add: getColor_def colors_get_def colors_def)

lemma colors_names:
  "map fst colors =
    [''black'', ''white'', ''red'', ''blue'', ''yellow'', ''green'', ''orange'', ''purple'',
     ''pink'', ''cyan'', ''magenta'', ''lime'', ''navy'', ''maroon'', ''teal'', ''olive'',
     ''silver'', ''gold'']"
  by (simp add: colors_def)

lemma colors_count: "length colors = 18 \<and> distinct (map fst colors)"
  by (simp add: colors_def)

lemma colors_range:
  "(name, (c, m, y, k)) \<in> set colors \<Longrightarrow>
    0 \<le> c \<and> c \<le> 1 \<and> 0 \<le> m \<and> m \<le> 1 \<and> 0 \<le> y \<and> y \<le> 1 \<and> 0 \<le> k \<and> k \<le> 1"
  by (auto simp: colors_def)

lemma getColor_own:
  "(name, t) \<in> set colors \<Longrightarrow> getColor name = Tuple t"
  using colors_count by (simp add: getColor_def colors_get_def)

lemma getColor_fallback:
  "name \<notin> set (map fst colors) \<Longrightarrow> name \<notin> set objectPrototype \<Longrightarrow>
    getColor name = Tuple (0, 0, 0, 1)"
proof -
  assume a: "name \<notin> set (map fst colors)" and b: "name \<notin> set objectPrototype"
  from a have "map_of colors name = None" by (simp add: map_of_eq_None_iff)
  with b have "colors_get name = Undefined" by (simp add: colors_get_def)
  moreover have "colors_get ''black'' = Tuple (0, 0, 0, 1)"
    by (simp add: colors_get_def colors_def)
  ultimately show ?thesis by (simp add: getColor_def)
qed

lemma getColor_inherited:
  "name \<in> set objectPrototype \<Longrightarrow> getColor name = Builtin name"
proof -
  assume b: "name \<in> set objectPrototype"
  then have "name \<notin> set (map fst colors)"
    unfolding colors_names by (auto simp: objectPrototype_def)
  then have "map_of colors name = None" by (simp add: map_of_eq_None_iff)
  with b have "colors_get name = Builtin name" by (simp add: colors_get_def)
  then show ?thesis by (simp add: getColor_def)
qed

subsection \<open>The run of \<^verbatim>\<open>generatePDF\<close>\<close>

text \<open>
  The page is drawn exactly when both colour names resolve to tuples; otherwise the
  destructuring raises before the first drawing call.
\<close>

lemma generatePDF_Inr:
  assumes "getColor fg = Tuple (fgC, fgM, fgY, fgK)"
    and "getColor bg = Tuple (bgC, bgM, bgY, bgK)"
  shows "generatePDF font text widthMm heightMm centerText fontSizeMm fg bg =
    Inr (baseLayer (mmToPoints widthMm) (mmToPoints heightMm)
         @ innerRectangle (mmToPoints widthMm) (mmToPoints heightMm)
             (cmyk fgC fgM fgY fgK) (cmyk bgC bgM bgY bgK)
         @ cornerCircles (mmToPoints widthMm) (mmToPoints heightMm) (cmyk fgC fgM fgY fgK)
         @ horizontalCircles (mmToPoints widthMm) (mmToPoints64 widthMm) (mmToPoints heightMm)
             (cmyk fgC fgM fgY fgK)
         @ verticalCircles (mmToPoints widthMm) (mmToPoints heightMm) (mmToPoints64 heightMm)
             (cmyk fgC fgM fgY fgK)
         @ textLayer font text (mmToPoints widthMm) (mmToPoints heightMm) centerText fontSizeMm
             (cmyk fgC fgM fgY fgK))"
  using assms by (simp add: generatePDF_def Let_def)

lemma generatePDF_Inl:
  "(\<forall>t. getColor fg \<noteq> Tuple t) \<or> (\<forall>t. getColor bg \<noteq> Tuple t) \<Longrightarrow>
    generatePDF font text widthMm heightMm centerText fontSizeMm fg bg = Inl TypeError"
  by (cases "getColor fg"; cases "getColor bg")
     (auto simp: generatePDF_def split: prod.splits)

subsection \<open>Panel and corner circles in millimetres\<close>

lemma innerRectangle_mm:
  "innerRectangle (mmToPoints widthMm) (mmToPoints heightMm) fgColor bgColor =
    [DrawRectangle (mmToPoints 25) (mmToPoints 25) (mmToPoints (widthMm - 2 * 25))
       (mmToPoints (heightMm - 2 * 25)) bgColor (Some fgColor) (Some (mmToPoints 0.5))]"
  by (simp only: innerRectangle_def Let_def marginMm_def borderThickness_def mmToPoints_diff
      mmToPoints_mult)

lemma cornerCircles_mm:
  "cornerCircles (mmToPoints widthMm) (mmToPoints heightMm) fgColor =
    [DrawCircle (mmToPoints 37.5) (mmToPoints 37.5) (mmToPoints 6) fgColor,
     DrawCircle (mmToPoints (widthMm - 37.5)) (mmToPoints 37.5) (mmToPoints 6) fgColor,
     DrawCircle (mmToPoints 37.5) (mmToPoints (heightMm - 37.5)) (mmToPoints 6) fgColor,
     DrawCircle (mmToPoints (widthMm - 37.5)) (mmToPoints (heightMm - 37.5)) (mmToPoints 6) fgColor]"
  by (simp only: cornerCircles_def cornerPositions_def circleOffset_def circleRadius_def
      mmToPoints_diff list.map fst_conv snd_conv)

lemma length_cornerCircles: "length (cornerCircles W H f) = 4"
  by (simp add: cornerCircles_def cornerPositions_def)

lemma cornerCircles_all:
  "op \<in> set (cornerCircles w h f) \<Longrightarrow> is_circle op \<and> circle_size op = circleRadius"
  by (auto simp: cornerCircles_def cornerPositions_def)

subsection \<open>Intermediate circles\<close>

text \<open>
  Both iterations as lists over \<open>[i..n]\<close>, and the circles of both blocks in millimetres
  for the count that the program computes.
\<close>

lemma upto_from_1: "[1..n] = (if 1 \<le> n then 1 # [2..n] else [])"
  by (subst upto.simps) simp

lemma horizontalLoop_upto:
  "horizontalLoop i n spacing height fgColor =
    concat (map (\<lambda>j. [DrawCircle (circleOffset + of_int j * spacing) (height - circleOffset) circleRadius fgColor,
                       DrawCircle (circleOffset + of_int j * spacing) circleOffset circleRadius fgColor]) [i..n])"
proof (induction i n spacing height fgColor rule: horizontalLoop.induct)
  case (1 i n spacing height fgColor)
  show ?case
  proof (cases "i \<le> n")
    case True
    then have "[i..n] = i # [i + 1..n]" by (simp add: upto_rec1)
    with True 1 show ?thesis by (subst horizontalLoop.simps) (simp add: Let_def)
  next
    case False
    then show ?thesis by (subst horizontalLoop.simps) simp
  qed
qed

lemma verticalLoop_upto:
  "verticalLoop i n spacing width fgColor =
    concat (map (\<lambda>j. [DrawCircle circleOffset (circleOffset + of_int j * spacing) circleRadius fgColor,
                       DrawCircle (width - circleOffset) (circleOffset + of_int j * spacing) circleRadius fgColor]) [i..n])"
proof (induction i n spacing width fgColor rule: verticalLoop.induct)
  case (1 i n spacing width fgColor)
  show ?case
  proof (cases "i \<le> n")
    case True
    then have "[i..n] = i # [i + 1..n]" by (simp add: upto_rec1)
    with True 1 show ?thesis by (subst verticalLoop.simps) (simp add: Let_def)
  next
    case False
    then show ?thesis by (subst verticalLoop.simps) simp
  qed
qed

lemma length_spec_offsets: "length (spec_offsets d) = nat (spec_count d)"
  by (simp add: spec_offsets_def)

lemma spec_count_nonneg: "0 \<le> spec_count d"
  by (simp add: spec_count_def spec_span_def)

lemma length_spec_offsets_floor:
  "length (spec_offsets d) = (if d - 2 * 37.5 < 500 then 0 else nat \<lfloor>(d - 2 * 37.5) / 500\<rfloor>)"
  by (simp add: spec_offsets_def spec_count_def spec_span_def)

lemma spec_offsets_nth:
  assumes "i < length (spec_offsets d)"
  shows "spec_offsets d ! i =
    37.5 + real (i + 1) * (d - 2 * 37.5) / (real (length (spec_offsets d)) + 1)"
proof -
  have n: "real (length (spec_offsets d)) = of_int (spec_count d)"
    using spec_count_nonneg [of d] by (simp add: length_spec_offsets)
  from assms have i: "i < nat (spec_count d)" by (simp add: length_spec_offsets)
  then have "[1..spec_count d] ! i = 1 + int i" by (simp add: nth_upto)
  with i show ?thesis
    unfolding n by (simp add: spec_offsets_def spec_span_def)
qed

lemma horizontalDistance_mm: "horizontalDistance (mmToPoints widthMm) = mmToPoints (widthMm - 2 * 37.5)"
  by (simp add: horizontalDistance_def circleOffset_def mmToPoints_def field_simps)

lemma verticalDistance_mm: "verticalDistance (mmToPoints heightMm) = mmToPoints (heightMm - 2 * 37.5)"
  by (simp add: verticalDistance_def circleOffset_def mmToPoints_def field_simps)


lemma verticalSpacing_mm:
  "pointsToMm (verticalSpacing (mmToPoints heightMm) n) = (heightMm - 2 * 37.5) / (of_int n + 1)"
  unfolding verticalSpacing_def verticalDistance_mm
  by (simp only: pointsToMm_quotient)

lemma horizontalCircles_mm:
  "horizontalCircles (mmToPoints widthMm) width64 (mmToPoints heightMm) fgColor =
    (if minDistance64 \<le> horizontalDistance64 width64 then
       concat (map (\<lambda>j. [DrawCircle
                            (mmToPoints (37.5 + of_int j * (widthMm - 2 * 37.5)
                               / (of_int (numIntermediateCircles (horizontalDistance64 width64)) + 1)))
                            (mmToPoints (heightMm - 37.5)) (mmToPoints 6) fgColor,
                          DrawCircle
                            (mmToPoints (37.5 + of_int j * (widthMm - 2 * 37.5)
                               / (of_int (numIntermediateCircles (horizontalDistance64 width64)) + 1)))
                            (mmToPoints 37.5) (mmToPoints 6) fgColor])
         [1..numIntermediateCircles (horizontalDistance64 width64)])
     else [])"
proof -
  define n where "n = numIntermediateCircles (horizontalDistance64 width64)"
  have x: "circleOffset + of_int j * horizontalSpacing (mmToPoints widthMm) n =
      mmToPoints (37.5 + of_int j * (widthMm - 2 * 37.5) / (of_int n + 1))" for j
    unfolding horizontalSpacing_def horizontalDistance_mm
    by (simp only: circleOffset_def mmToPoints_affine)
  have "horizontalLoop 1 n (horizontalSpacing (mmToPoints widthMm) n) (mmToPoints heightMm) fgColor =
      concat (map (\<lambda>j. [DrawCircle
                            (mmToPoints (37.5 + of_int j * (widthMm - 2 * 37.5) / (of_int n + 1)))
                            (mmToPoints (heightMm - 37.5)) (mmToPoints 6) fgColor,
                          DrawCircle
                            (mmToPoints (37.5 + of_int j * (widthMm - 2 * 37.5) / (of_int n + 1)))
                            (mmToPoints 37.5) (mmToPoints 6) fgColor])
        [1..n])"
    unfolding horizontalLoop_upto
    by (simp only: x circleRadius_def) (simp only: circleOffset_def mmToPoints_diff)
  then show ?thesis
    unfolding horizontalCircles_def Let_def n_def by simp
qed

lemma verticalCircles_mm:
  "verticalCircles (mmToPoints widthMm) (mmToPoints heightMm) height64 fgColor =
    (if minDistance64 \<le> verticalDistance64 height64 then
       concat (map (\<lambda>j. [DrawCircle (mmToPoints 37.5)
                            (mmToPoints (37.5 + of_int j * (heightMm - 2 * 37.5)
                               / (of_int (numIntermediateCircles (verticalDistance64 height64)) + 1)))
                            (mmToPoints 6) fgColor,
                          DrawCircle (mmToPoints (widthMm - 37.5))
                            (mmToPoints (37.5 + of_int j * (heightMm - 2 * 37.5)
                               / (of_int (numIntermediateCircles (verticalDistance64 height64)) + 1)))
                            (mmToPoints 6) fgColor])
         [1..numIntermediateCircles (verticalDistance64 height64)])
     else [])"
proof -
  define n where "n = numIntermediateCircles (verticalDistance64 height64)"
  have y: "circleOffset + of_int j * verticalSpacing (mmToPoints heightMm) n =
      mmToPoints (37.5 + of_int j * (heightMm - 2 * 37.5) / (of_int n + 1))" for j
    unfolding verticalSpacing_def verticalDistance_mm
    by (simp only: circleOffset_def mmToPoints_affine)
  have "verticalLoop 1 n (verticalSpacing (mmToPoints heightMm) n) (mmToPoints widthMm) fgColor =
      concat (map (\<lambda>j. [DrawCircle (mmToPoints 37.5)
                            (mmToPoints (37.5 + of_int j * (heightMm - 2 * 37.5) / (of_int n + 1)))
                            (mmToPoints 6) fgColor,
                          DrawCircle (mmToPoints (widthMm - 37.5))
                            (mmToPoints (37.5 + of_int j * (heightMm - 2 * 37.5) / (of_int n + 1)))
                            (mmToPoints 6) fgColor])
        [1..n])"
    unfolding verticalLoop_upto
    by (simp only: y circleRadius_def) (simp only: circleOffset_def mmToPoints_diff)
  then show ?thesis
    unfolding verticalCircles_def Let_def n_def by simp
qed

text \<open>
  Where the two decisions of the program come out as the specification's rule has them,
  the circles are the specification's.
\<close>

lemma horizontalCircles_spec:
  assumes guard: "(minDistance64 \<le> horizontalDistance64 width64) = (\<not> spec_span widthMm < 500)"
    and count: "\<not> spec_span widthMm < 500 \<Longrightarrow>
      numIntermediateCircles (horizontalDistance64 width64) = spec_count widthMm"
  shows "horizontalCircles (mmToPoints widthMm) width64 (mmToPoints heightMm) fgColor =
    concat (map (\<lambda>x. [DrawCircle (mmToPoints x) (mmToPoints (heightMm - 37.5)) (mmToPoints 6) fgColor,
                       DrawCircle (mmToPoints x) (mmToPoints 37.5) (mmToPoints 6) fgColor])
      (spec_offsets widthMm))"
proof (cases "spec_span widthMm < 500")
  case True
  with guard have "\<not> minDistance64 \<le> horizontalDistance64 width64" by simp
  with True show ?thesis
    unfolding horizontalCircles_mm by (simp add: spec_offsets_def spec_count_def)
next
  case False
  with guard have g: "minDistance64 \<le> horizontalDistance64 width64" by simp
  note n = count [OF False]
  show ?thesis
    unfolding horizontalCircles_mm n
    using g by (simp only: if_True spec_offsets_def spec_span_def map_map comp_def)
qed

lemma verticalCircles_spec:
  assumes guard: "(minDistance64 \<le> verticalDistance64 height64) = (\<not> spec_span heightMm < 500)"
    and count: "\<not> spec_span heightMm < 500 \<Longrightarrow>
      numIntermediateCircles (verticalDistance64 height64) = spec_count heightMm"
  shows "verticalCircles (mmToPoints widthMm) (mmToPoints heightMm) height64 fgColor =
    concat (map (\<lambda>y. [DrawCircle (mmToPoints 37.5) (mmToPoints y) (mmToPoints 6) fgColor,
                       DrawCircle (mmToPoints (widthMm - 37.5)) (mmToPoints y) (mmToPoints 6) fgColor])
      (spec_offsets heightMm))"
proof (cases "spec_span heightMm < 500")
  case True
  with guard have "\<not> minDistance64 \<le> verticalDistance64 height64" by simp
  with True show ?thesis
    unfolding verticalCircles_mm by (simp add: spec_offsets_def spec_count_def)
next
  case False
  with guard have g: "minDistance64 \<le> verticalDistance64 height64" by simp
  note n = count [OF False]
  show ?thesis
    unfolding verticalCircles_mm n
    using g by (simp only: if_True spec_offsets_def spec_span_def map_map comp_def)
qed

lemma horizontalCircles_all:
  "op \<in> set (horizontalCircles w w64 h f) \<Longrightarrow> is_circle op \<and> circle_size op = circleRadius"
  by (cases "minDistance64 \<le> horizontalDistance64 w64")
    (auto simp: horizontalCircles_def horizontalLoop_upto Let_def)

lemma verticalCircles_all:
  "op \<in> set (verticalCircles w h h64 f) \<Longrightarrow> is_circle op \<and> circle_size op = circleRadius"
  by (cases "minDistance64 \<le> verticalDistance64 h64")
    (auto simp: verticalCircles_def verticalLoop_upto Let_def)

lemma spec_offsets_3000: "spec_offsets 3000 = [525, 1012.5, 1500, 1987.5, 2475]"
  by (simp add: spec_offsets_def spec_count_def spec_span_def upto_from_1)

lemma spec_offsets_700: "spec_offsets 700 = [350]"
  by (simp add: spec_offsets_def spec_count_def spec_span_def upto_from_1)

lemma spec_offsets_575: "spec_offsets 575 = [287.5]"
  by (simp add: spec_offsets_def spec_count_def spec_span_def upto_from_1)

lemma spec_offsets_500: "spec_offsets 500 = []"
  by (simp add: spec_offsets_def spec_count_def spec_span_def)

subsection \<open>Splitting and text lines\<close>

lemma split_from_length:
  "length (split_from cur s) = Suc (length (filter (\<lambda>c. c = CHR 0x0A) s))"
  by (induction s arbitrary: cur) auto

lemma length_split_newline:
  "length (split_newline text) = Suc (length (filter (\<lambda>c. c = CHR 0x0A) text))"
  by (simp add: split_newline_def split_from_length)

lemma split_from_not_Nil: "split_from cur s \<noteq> []"
  by (induction s arbitrary: cur) auto

lemma join_newline_Cons: "ls \<noteq> [] \<Longrightarrow> join_newline (l # ls) = l @ CHR 0x0A # join_newline ls"
  by (cases ls) simp_all

lemma join_split_from: "join_newline (split_from cur s) = rev cur @ s"
  by (induction s arbitrary: cur) (simp_all add: join_newline_Cons split_from_not_Nil)

lemma join_split_newline: "join_newline (split_newline text) = text"
  by (simp add: split_newline_def join_split_from)

lemma split_from_no_newline:
  "CHR 0x0A \<notin> set cur \<Longrightarrow> \<forall>l \<in> set (split_from cur s). CHR 0x0A \<notin> set l"
proof (induction s arbitrary: cur)
  case Nil
  then show ?case by simp
next
  case (Cons a s)
  have fresh: "\<forall>l \<in> set (split_from [] s). CHR 0x0A \<notin> set l"
    by (rule Cons.IH) simp
  have more: "\<forall>l \<in> set (split_from (a # cur) s). CHR 0x0A \<notin> set l" if "a \<noteq> CHR 0x0A"
    using that Cons.prems by (intro Cons.IH) simp
  from fresh more Cons.prems show ?case by simp
qed

lemma split_newline_no_newline: "l \<in> set (split_newline text) \<Longrightarrow> CHR 0x0A \<notin> set l"
  using split_from_no_newline [of "[]" "text"] by (simp add: split_newline_def)

lemma length_textLayer:
  "length (textLayer font text W H c fs f) = length (split_newline text)"
  by (simp add: textLayer_def Let_def)

lemma textLayer_nth:
  assumes "i < length (split_newline text)"
  shows "textLayer font text W H c fs f ! i =
    DrawText (split_newline text ! i)
      (if c then (W - font (split_newline text ! i) (fontSize fs)) / 2 else mmToPoints (marginMm + 5))
      (startY c H fs (split_newline text) - real i * lineSpacing fs) (fontSize fs) f"
  using assms by (simp add: textLayer_def Let_def nth_enumerate_eq)

lemma text_line_textLayer:
  "map text_line (textLayer font text W H c fs f) = split_newline text"
  by (rule nth_equalityI) (simp_all add: length_textLayer textLayer_nth)

lemma startY_centered:
  "startY True H fs lines =
    H / 2 + ((real (length lines) - 1) * (mmToPoints fs * 1.3) + mmToPoints fs) / 2
      - mmToPoints fs * 0.35 - mmToPoints fs * 1.3 * 0.5"
  by (simp add: startY_def totalTextHeight_def lineSpacing_def fontSize_def Let_def)

lemma startY_left: "startY False H fs lines = H - mmToPoints 25"
  by (simp add: startY_def)

lemma step_down:
  fixes S L :: real
  shows "S - real (Suc i) * L = S - real i * L - L"
  by (simp add: algebra_simps)

lemma list_of_length_2: "length xs = 2 \<Longrightarrow> xs = [xs ! 0, xs ! 1]"
  by (cases xs; cases "tl xs") auto

lemma map_of_length_3: "length xs = 3 \<Longrightarrow> map f xs = [f (xs ! 0), f (xs ! 1), f (xs ! 2)]"
  by (cases xs; cases "tl xs"; cases "tl (tl xs)") auto

subsection \<open>The operations of a page by kind\<close>

lemma circle_not_other:
  "is_circle op \<Longrightarrow> \<not> is_text op"
  "is_circle op \<Longrightarrow> \<not> is_rectangle op"
  by (cases op; simp)+

lemma filter_base [simp]:
  "filter is_circle (baseLayer w h) = []"
  "filter is_text (baseLayer w h) = []"
  "filter is_rectangle (baseLayer w h) = baseLayer w h"
  by (simp_all add: baseLayer_def)

lemma filter_inner [simp]:
  "filter is_circle (innerRectangle w h f b) = []"
  "filter is_text (innerRectangle w h f b) = []"
  "filter is_rectangle (innerRectangle w h f b) = innerRectangle w h f b"
  by (simp_all add: innerRectangle_def Let_def)

lemma filter_corner [simp]:
  "filter is_circle (cornerCircles w h f) = cornerCircles w h f"
  "filter is_text (cornerCircles w h f) = []"
  "filter is_rectangle (cornerCircles w h f) = []"
  by (simp_all add: cornerCircles_def cornerPositions_def)

lemma filter_horizontal [simp]:
  "filter is_circle (horizontalCircles w w64 h f) = horizontalCircles w w64 h f"
  "filter is_text (horizontalCircles w w64 h f) = []"
  "filter is_rectangle (horizontalCircles w w64 h f) = []"
  by (auto simp: filter_empty_conv filter_id_conv dest: horizontalCircles_all circle_not_other)

lemma filter_vertical [simp]:
  "filter is_circle (verticalCircles w h h64 f) = verticalCircles w h h64 f"
  "filter is_text (verticalCircles w h h64 f) = []"
  "filter is_rectangle (verticalCircles w h h64 f) = []"
  by (auto simp: filter_empty_conv filter_id_conv dest: verticalCircles_all circle_not_other)

lemma filter_text [simp]:
  "filter is_circle (textLayer font text w h c fs f) = []"
  "filter is_text (textLayer font text w h c fs f) = textLayer font text w h c fs f"
  "filter is_rectangle (textLayer font text w h c fs f) = []"
  by (auto simp: textLayer_def Let_def filter_empty_conv filter_id_conv)

lemma filter_circles_generatePDF:
  "filter is_circle
     (baseLayer W H @ innerRectangle W H f b @ cornerCircles W H f @ horizontalCircles W W64 H f
      @ verticalCircles W H H64 f @ textLayer font text W H c fs f)
   = cornerCircles W H f @ horizontalCircles W W64 H f @ verticalCircles W H H64 f"
  by simp

lemma filter_rectangles_generatePDF:
  "filter is_rectangle
     (baseLayer W H @ innerRectangle W H f b @ cornerCircles W H f @ horizontalCircles W W64 H f
      @ verticalCircles W H H64 f @ textLayer font text W H c fs f)
   = baseLayer W H @ innerRectangle W H f b"
  by simp

lemma filter_text_generatePDF:
  "filter is_text
     (baseLayer W H @ innerRectangle W H f b @ cornerCircles W H f @ horizontalCircles W W64 H f
      @ verticalCircles W H H64 f @ textLayer font text W H c fs f)
   = textLayer font text W H c fs f"
  by simp

subsection \<open>The circles of a page\<close>

lemma generatePDF_circles:
  assumes fg: "getColor fg = Tuple (c, m, y, k)"
    and bg: "getColor bg = Tuple (c', m', y', k')"
  shows "\<exists>ops. generatePDF font text widthMm heightMm centerText fontSizeMm fg bg = Inr ops
    \<and> take 4 (filter is_circle ops) =
        cornerCircles (mmToPoints widthMm) (mmToPoints heightMm) (cmyk c m y k)
    \<and> drop 4 (filter is_circle ops) =
        horizontalCircles (mmToPoints widthMm) (mmToPoints64 widthMm) (mmToPoints heightMm)
          (cmyk c m y k)
        @ verticalCircles (mmToPoints widthMm) (mmToPoints heightMm) (mmToPoints64 heightMm)
            (cmyk c m y k)"
proof -
  let ?W = "mmToPoints widthMm" and ?H = "mmToPoints heightMm"
    and ?W64 = "mmToPoints64 widthMm" and ?H64 = "mmToPoints64 heightMm" and ?f = "cmyk c m y k"
  let ?ops = "baseLayer ?W ?H @ innerRectangle ?W ?H ?f (cmyk c' m' y' k')
      @ cornerCircles ?W ?H ?f @ horizontalCircles ?W ?W64 ?H ?f @ verticalCircles ?W ?H ?H64 ?f
      @ textLayer font text ?W ?H centerText fontSizeMm ?f"
  have run: "generatePDF font text widthMm heightMm centerText fontSizeMm fg bg = Inr ?ops"
    by (rule generatePDF_Inr [OF fg bg])
  have circles: "filter is_circle ?ops =
      cornerCircles ?W ?H ?f @ horizontalCircles ?W ?W64 ?H ?f @ verticalCircles ?W ?H ?H64 ?f"
    by (rule filter_circles_generatePDF)
  have first: "take 4 (filter is_circle ?ops) = cornerCircles ?W ?H ?f"
    unfolding circles by (simp add: length_cornerCircles)
  have rest: "drop 4 (filter is_circle ?ops) =
      horizontalCircles ?W ?W64 ?H ?f @ verticalCircles ?W ?H ?H64 ?f"
    unfolding circles by (simp add: length_cornerCircles)
  show ?thesis
    by (rule exI [of _ ?ops], intro conjI) (rule run first rest)+
qed

text \<open>
  The page of 3000 mm by 700 mm, the example of the specification: the program decides
  for 5 circles per horizontal edge and 1 per vertical edge, and the circles are the
  specification's, 487.5 mm and 312.5 mm apart.
\<close>

lemma page_3000_700:
  "\<exists>ops. generatePDF font text 3000 700 centerText fontSizeMm ''black'' ''yellow'' = Inr ops
    \<and> map (\<lambda>op. (pointsToMm (circle_x op), pointsToMm (circle_y op)))
          (drop 4 (filter is_circle ops)) =
        [(525, 662.5), (525, 37.5), (1012.5, 662.5), (1012.5, 37.5), (1500, 662.5), (1500, 37.5),
         (1987.5, 662.5), (1987.5, 37.5), (2475, 662.5), (2475, 37.5),
         (37.5, 350), (2962.5, 350)]"
proof -
  from generatePDF_circles [OF getColor_black getColor_yellow,
      of font "text" 3000 700 centerText fontSizeMm]
  obtain ops where run: "generatePDF font text 3000 700 centerText fontSizeMm ''black'' ''yellow''
      = Inr ops"
    and rest: "drop 4 (filter is_circle ops) =
        horizontalCircles (mmToPoints 3000) (mmToPoints64 3000) (mmToPoints 700) (cmyk 0 0 0 1)
        @ verticalCircles (mmToPoints 3000) (mmToPoints 700) (mmToPoints64 700) (cmyk 0 0 0 1)"
    by blast
  have h: "horizontalCircles (mmToPoints 3000) (mmToPoints64 3000) (mmToPoints 700) (cmyk 0 0 0 1) =
      concat (map (\<lambda>x. [DrawCircle (mmToPoints x) (mmToPoints (700 - 37.5)) (mmToPoints 6)
                           (cmyk 0 0 0 1),
                         DrawCircle (mmToPoints x) (mmToPoints 37.5) (mmToPoints 6) (cmyk 0 0 0 1)])
        (spec_offsets 3000))"
    by (rule horizontalCircles_spec)
      (simp_all add: width_3000_guard width_3000_count spec_span_def spec_count_def)
  have v: "verticalCircles (mmToPoints 3000) (mmToPoints 700) (mmToPoints64 700) (cmyk 0 0 0 1) =
      concat (map (\<lambda>y. [DrawCircle (mmToPoints 37.5) (mmToPoints y) (mmToPoints 6) (cmyk 0 0 0 1),
                         DrawCircle (mmToPoints (3000 - 37.5)) (mmToPoints y) (mmToPoints 6)
                           (cmyk 0 0 0 1)])
        (spec_offsets 700))"
    by (rule verticalCircles_spec)
      (simp_all add: height_700_guard height_700_count spec_span_def spec_count_def)
  have centres: "map (\<lambda>op. (pointsToMm (circle_x op), pointsToMm (circle_y op)))
          (drop 4 (filter is_circle ops)) =
        [(525, 662.5), (525, 37.5), (1012.5, 662.5), (1012.5, 37.5), (1500, 662.5), (1500, 37.5),
         (1987.5, 662.5), (1987.5, 37.5), (2475, 662.5), (2475, 37.5),
         (37.5, 350), (2962.5, 350)]"
    unfolding rest h v spec_offsets_3000 spec_offsets_700
    by (simp add: pointsToMm_mmToPoints)
  show ?thesis
    by (intro conjI exI [of _ ops]) (rule run centres)+
qed

text \<open>
  A centre at the offset \<open>a\<close> from an edge, on a page at least \<open>2 * a\<close> across, has
  that edge as its nearest.
\<close>

lemma nearest_corner:
  assumes "2 * a \<le> W" and "0 \<le> a"
  shows "nearest_edge_distance W a = a" and "nearest_edge_distance W (W - a) = a"
  using assms by (auto simp: nearest_edge_distance_def min_def abs_if)

lemma page_of_Inr: "page_of (Inr ops) = ops"
  by (simp add: page_of_def)

subsection \<open>The base layer\<close>

lemma base_layer_white:
  assumes fg: "getColor fg = Tuple (c, m, y, k)"
    and bg: "getColor bg = Tuple (c', m', y', k')"
  shows "\<exists>ops. generatePDF font text widthMm heightMm centerText fontSizeMm fg bg = Inr ops
    \<and> ops ! 0 = DrawRectangle 0 0 (mmToPoints widthMm) (mmToPoints heightMm) (cmyk 0 0 0 0)
                  None None"
proof -
  let ?W = "mmToPoints widthMm" and ?H = "mmToPoints heightMm"
    and ?W64 = "mmToPoints64 widthMm" and ?H64 = "mmToPoints64 heightMm" and ?f = "cmyk c m y k"
  let ?ops = "baseLayer ?W ?H @ innerRectangle ?W ?H ?f (cmyk c' m' y' k')
      @ cornerCircles ?W ?H ?f @ horizontalCircles ?W ?W64 ?H ?f @ verticalCircles ?W ?H ?H64 ?f
      @ textLayer font text ?W ?H centerText fontSizeMm ?f"
  have run: "generatePDF font text widthMm heightMm centerText fontSizeMm fg bg = Inr ?ops"
    by (rule generatePDF_Inr [OF fg bg])
  have base: "?ops ! 0 = DrawRectangle 0 0 ?W ?H (cmyk 0 0 0 0) None None"
    by (simp add: baseLayer_def)
  show ?thesis
    by (rule exI [of _ ?ops], intro conjI) (rule run base)+
qed

lemma base_layer_same:
  assumes "getColor fg = Tuple (c, m, y, k)" and "getColor bg = Tuple (c', m', y', k')"
    and "getColor fg2 = Tuple (c2, m2, y2, k2)" and "getColor bg2 = Tuple (c2', m2', y2', k2')"
  shows "\<exists>ops ops2.
      generatePDF font text widthMm heightMm centerText fontSizeMm fg bg = Inr ops
    \<and> generatePDF font text widthMm heightMm centerText fontSizeMm fg2 bg2 = Inr ops2
    \<and> ops2 ! 0 = ops ! 0"
proof -
  from base_layer_white [OF assms(1,2)] obtain ops
    where 1: "generatePDF font text widthMm heightMm centerText fontSizeMm fg bg = Inr ops"
      and 2: "ops ! 0 = DrawRectangle 0 0 (mmToPoints widthMm) (mmToPoints heightMm)
        (cmyk 0 0 0 0) None None"
    by blast
  from base_layer_white [OF assms(3,4)] obtain ops2
    where 3: "generatePDF font text widthMm heightMm centerText fontSizeMm fg2 bg2 = Inr ops2"
      and 4: "ops2 ! 0 = DrawRectangle 0 0 (mmToPoints widthMm) (mmToPoints heightMm)
        (cmyk 0 0 0 0) None None"
    by blast
  from 2 4 have "ops2 ! 0 = ops ! 0" by simp
  with 1 3 show ?thesis by blast
qed

section \<open>The claims\<close>

text \<open>
  Claim C1 (intermediate circles). The claim places \<open>floor (span / 500)\<close> circles per
  edge whenever \<open>span = dimension - 2 * 37.5\<close> is at least 500 mm. The program takes both
  decisions on doubles after the conversion to points, and at a span that is an exact
  multiple of 500 mm the rounding decides otherwise. For a width of 575 mm the span is
  500 mm and the claim places one circle per horizontal edge, at 287.5 mm; the program
  computes a distance one unit in the last place below \<^verbatim>\<open>minDistance\<close> and draws no
  intermediate circle. For a width of 2075 mm the claim counts 4 and the program 3. Away
  from these spans the circles are the claim's (\<open>horizontalCircles_spec\<close>,
  \<open>verticalCircles_spec\<close>), as on the page of 3000 mm by 700 mm (\<open>page_3000_700\<close>).
\<close>

theorem intermediate_circles_at_span_500:
  "spec_span 575 = 500
   \<and> spec_offsets 575 = [287.5]
   \<and> horizontalDistance64 (mmToPoints64 575) < minDistance64
   \<and> (\<exists>ops. generatePDF font text 575 500 centerText fontSizeMm ''black'' ''yellow'' = Inr ops
        \<and> drop 4 (filter is_circle ops) = [])
   \<and> spec_count 2075 = 4
   \<and> numIntermediateCircles (horizontalDistance64 (mmToPoints64 2075)) = 3"
proof -
  have span: "spec_span 575 = 500"
    by (simp add: spec_span_def)
  from generatePDF_circles [OF getColor_black getColor_yellow,
      of font "text" 575 500 centerText fontSizeMm]
  obtain ops where run: "generatePDF font text 575 500 centerText fontSizeMm ''black'' ''yellow''
      = Inr ops"
    and rest: "drop 4 (filter is_circle ops) =
        horizontalCircles (mmToPoints 575) (mmToPoints64 575) (mmToPoints 500) (cmyk 0 0 0 1)
        @ verticalCircles (mmToPoints 575) (mmToPoints 500) (mmToPoints64 500) (cmyk 0 0 0 1)"
    by blast
  have "\<not> minDistance64 \<le> horizontalDistance64 (mmToPoints64 575)"
    using width_575_guard by simp
  then have h: "horizontalCircles (mmToPoints 575) (mmToPoints64 575) (mmToPoints 500)
      (cmyk 0 0 0 1) = []"
    by (simp add: horizontalCircles_def)
  have "\<not> minDistance64 \<le> verticalDistance64 (mmToPoints64 500)"
    using height_500_guard by simp
  then have v: "verticalCircles (mmToPoints 575) (mmToPoints 500) (mmToPoints64 500)
      (cmyk 0 0 0 1) = []"
    by (simp add: verticalCircles_def)
  have none: "drop 4 (filter is_circle ops) = []"
    unfolding rest h v by simp
  have page: "\<exists>ops. generatePDF font text 575 500 centerText fontSizeMm ''black'' ''yellow''
      = Inr ops \<and> drop 4 (filter is_circle ops) = []"
    by (intro conjI exI [of _ ops]) (rule run none)+
  have four: "spec_count 2075 = 4"
    by (simp add: spec_count_def spec_span_def)
  show ?thesis
    by (intro conjI) (rule span spec_offsets_575 width_575_guard page four width_2075_count)+
qed

text \<open>
  Claim C2 (centred text). With \<open>centerText = True\<close> there is one text operation per
  line of the split, and line \<open>i\<close> is drawn at
  \<open>x = (pageWidth - lineWidth i) / 2\<close>, with the width the font measures for that very
  line, and at \<open>y = startY - i * lineSpacing\<close>, where \<open>lineSpacing = fontSize * 1.3\<close>,
  \<open>totalTextHeight = (numberOfLines - 1) * lineSpacing + fontSize\<close> and
  \<open>startY = pageHeight / 2 + totalTextHeight / 2 - fontSize * 0.35 - lineSpacing * 0.5\<close>.
  For \<open>i = 0\<close> this is the baseline of the first line. The split never gives an empty
  sequence of lines.
\<close>

theorem centered_text_layout:
  assumes fg: "getColor foregroundColor = Tuple (c, m, y, k)"
    and bg: "getColor backgroundColor = Tuple (c', m', y', k')"
  shows "\<exists>ops. generatePDF font text widthMm heightMm True fontSizeMm
                  foregroundColor backgroundColor = Inr ops
    \<and> length (filter is_text ops) = length (split_newline text)
    \<and> (\<forall>i < length (split_newline text).
          filter is_text ops ! i =
            DrawText (split_newline text ! i)
              ((mmToPoints widthMm - font (split_newline text ! i) (mmToPoints fontSizeMm)) / 2)
              (mmToPoints heightMm / 2
                 + ((real (length (split_newline text)) - 1) * (mmToPoints fontSizeMm * 1.3)
                    + mmToPoints fontSizeMm) / 2
                 - mmToPoints fontSizeMm * 0.35
                 - (mmToPoints fontSizeMm * 1.3) * 0.5
                 - real i * (mmToPoints fontSizeMm * 1.3))
              (mmToPoints fontSizeMm) (cmyk c m y k))"
proof -
  let ?W = "mmToPoints widthMm" and ?H = "mmToPoints heightMm"
    and ?W64 = "mmToPoints64 widthMm" and ?H64 = "mmToPoints64 heightMm" and ?f = "cmyk c m y k"
  let ?T = "textLayer font text ?W ?H True fontSizeMm ?f"
  let ?ops = "baseLayer ?W ?H @ innerRectangle ?W ?H ?f (cmyk c' m' y' k')
      @ cornerCircles ?W ?H ?f @ horizontalCircles ?W ?W64 ?H ?f @ verticalCircles ?W ?H ?H64 ?f @ ?T"
  have run: "generatePDF font text widthMm heightMm True fontSizeMm
      foregroundColor backgroundColor = Inr ?ops"
    by (rule generatePDF_Inr [OF fg bg])
  have texts: "filter is_text ?ops = ?T"
    by (rule filter_text_generatePDF)
  have len: "length (filter is_text ?ops) = length (split_newline text)"
    unfolding texts by (rule length_textLayer)
  have each: "\<forall>i < length (split_newline text).
          filter is_text ?ops ! i =
            DrawText (split_newline text ! i)
              ((?W - font (split_newline text ! i) (mmToPoints fontSizeMm)) / 2)
              (?H / 2
                 + ((real (length (split_newline text)) - 1) * (mmToPoints fontSizeMm * 1.3)
                    + mmToPoints fontSizeMm) / 2
                 - mmToPoints fontSizeMm * 0.35
                 - (mmToPoints fontSizeMm * 1.3) * 0.5
                 - real i * (mmToPoints fontSizeMm * 1.3))
              (mmToPoints fontSizeMm) ?f"
    unfolding texts
    by (simp add: textLayer_nth startY_centered fontSize_def lineSpacing_def)
  show ?thesis
    by (rule exI [of _ ?ops], intro conjI) (rule run len each)+
qed

theorem centered_text_layout_witness:
  "getColor ''black'' = Tuple (0, 0, 0, 1) \<and> getColor ''yellow'' = Tuple (0, 0, 1, 0)
   \<and> (\<exists>ops. generatePDF (\<lambda>line size. real (length line) * size / 2)
                [CHR ''A'', CHR ''B'', CHR 0x0A, CHR ''C''] 1000 700 True 25 ''black'' ''yellow''
                = Inr ops
      \<and> map (\<lambda>op. (text_line op, pointsToMm (text_x op), pointsToMm (text_y op)))
            (filter is_text ops) =
          [(''AB'', 487.5, 353.75), (''C'', 493.75, 321.25)])"
proof -
  let ?text = "[CHR ''A'', CHR ''B'', CHR 0x0A, CHR ''C'']"
  have fg: "getColor ''black'' = Tuple (0, 0, 0, 1)" by (rule getColor_black)
  have bg: "getColor ''yellow'' = Tuple (0, 0, 1, 0)" by (rule getColor_yellow)
  have lines: "split_newline ?text = [''AB'', ''C'']"
    by (simp add: split_newline_def)
  from centered_text_layout [OF fg bg, of "\<lambda>line size. real (length line) * size / 2" ?text
      1000 700 25]
  obtain ops where run: "generatePDF (\<lambda>line size. real (length line) * size / 2)
                ?text 1000 700 True 25 ''black'' ''yellow'' = Inr ops"
    and len: "length (filter is_text ops) = length (split_newline ?text)"
    and each: "\<forall>i < length (split_newline ?text).
          filter is_text ops ! i =
            DrawText (split_newline ?text ! i)
              ((mmToPoints 1000 - real (length (split_newline ?text ! i)) * mmToPoints 25 / 2) / 2)
              (mmToPoints 700 / 2
                 + ((real (length (split_newline ?text)) - 1) * (mmToPoints 25 * 1.3)
                    + mmToPoints 25) / 2
                 - mmToPoints 25 * 0.35
                 - (mmToPoints 25 * 1.3) * 0.5
                 - real i * (mmToPoints 25 * 1.3))
              (mmToPoints 25) (cmyk 0 0 0 1)"
    by blast
  from len have "filter is_text ops = [filter is_text ops ! 0, filter is_text ops ! 1]"
    unfolding lines by (intro list_of_length_2) simp
  moreover from each have "filter is_text ops ! 0
      = DrawText ''AB'' (mmToPoints 487.5) (mmToPoints 353.75) (mmToPoints 25) (cmyk 0 0 0 1)"
    unfolding lines by (simp add: mmToPoints_def)
  moreover from each have "filter is_text ops ! 1
      = DrawText ''C'' (mmToPoints 493.75) (mmToPoints 321.25) (mmToPoints 25) (cmyk 0 0 0 1)"
    unfolding lines by (simp add: mmToPoints_def)
  ultimately have positions: "map (\<lambda>op. (text_line op, pointsToMm (text_x op), pointsToMm (text_y op)))
            (filter is_text ops) =
          [(''AB'', 487.5, 353.75), (''C'', 493.75, 321.25)]"
    by (simp add: pointsToMm_mmToPoints)
  show ?thesis
    by (intro conjI exI [of _ ops]) (rule fg bg run positions)+
qed

text \<open>
  Claim C3 (corner circles). The claim says that each corner centre is 37.5 mm from its
  two nearest page edges, whatever the size of the banner. On a banner of 50 mm by
  700 mm the first corner circle is centred 37.5 mm from the left edge and 12.5 mm from
  the right edge: its nearest vertical edge is not 37.5 mm away.
\<close>

theorem corner_not_nearest_counterexample:
  "nearest_edge_distance (mmToPoints 50)
     (circle_x (filter is_circle
        (page_of (generatePDF monospace ''Banner PVC'' 50 700 True 25 ''black'' ''yellow'')) ! 0))
     = mmToPoints 12.5
   \<and> mmToPoints 12.5 \<noteq> mmToPoints 37.5"
proof -
  from generatePDF_circles [OF getColor_black getColor_yellow,
      of monospace "''Banner PVC''" 50 700 True 25]
  obtain ops where run: "generatePDF monospace ''Banner PVC'' 50 700 True 25 ''black'' ''yellow''
      = Inr ops"
    and first: "take 4 (filter is_circle ops) =
      cornerCircles (mmToPoints 50) (mmToPoints 700) (cmyk 0 0 0 1)"
    by blast
  have "filter is_circle ops ! 0 = take 4 (filter is_circle ops) ! 0"
    by simp
  also have "\<dots> = DrawCircle (mmToPoints 37.5) (mmToPoints 37.5) (mmToPoints 6) (cmyk 0 0 0 1)"
    unfolding first cornerCircles_mm by simp
  finally have corner: "filter is_circle ops ! 0 =
      DrawCircle (mmToPoints 37.5) (mmToPoints 37.5) (mmToPoints 6) (cmyk 0 0 0 1)" .
  have "nearest_edge_distance (mmToPoints 50) (circle_x (filter is_circle ops ! 0))
      = mmToPoints 12.5"
    unfolding corner by (simp add: nearest_edge_distance_def mmToPoints_def)
  moreover have "mmToPoints 12.5 \<noteq> mmToPoints 37.5"
    by (simp add: mmToPoints_def)
  ultimately show ?thesis
    unfolding run page_of_Inr by (rule conjI)
qed

text \<open>
  Claim C3, amended. Whenever both colour names resolve to tuples, the page is produced,
  and for every width and height the first four circles drawn are the corner circles,
  centred at \<open>(37.5, 37.5)\<close>, \<open>(width - 37.5, 37.5)\<close>, \<open>(37.5, height - 37.5)\<close> and
  \<open>(width - 37.5, height - 37.5)\<close> millimetres (converted to points); every circle
  after them comes from the two intermediate blocks. Read back in millimetres, each corner
  centre is 37.5 from the two page edges that meet at its corner, whatever the size of
  the banner (the four components are the distances to the left, right, bottom and top
  edge). These are its two nearest edges when the width and the height are at least
  75 mm. Every circle on the page has the radius of 6 mm.
\<close>

theorem corner_circles_fixed:
  assumes fg: "getColor foregroundColor = Tuple (c, m, y, k)"
    and bg: "getColor backgroundColor = Tuple (c', m', y', k')"
  shows "\<exists>ops. generatePDF font text widthMm heightMm centerText fontSizeMm
                  foregroundColor backgroundColor = Inr ops
    \<and> take 4 (filter is_circle ops) =
        [DrawCircle (mmToPoints 37.5) (mmToPoints 37.5) (mmToPoints 6) (cmyk c m y k),
         DrawCircle (mmToPoints (widthMm - 37.5)) (mmToPoints 37.5) (mmToPoints 6) (cmyk c m y k),
         DrawCircle (mmToPoints 37.5) (mmToPoints (heightMm - 37.5)) (mmToPoints 6) (cmyk c m y k),
         DrawCircle (mmToPoints (widthMm - 37.5)) (mmToPoints (heightMm - 37.5)) (mmToPoints 6)
           (cmyk c m y k)]
    \<and> drop 4 (filter is_circle ops) =
        horizontalCircles (mmToPoints widthMm) (mmToPoints64 widthMm) (mmToPoints heightMm)
          (cmyk c m y k)
        @ verticalCircles (mmToPoints widthMm) (mmToPoints heightMm) (mmToPoints64 heightMm)
            (cmyk c m y k)
    \<and> map (\<lambda>op. (pointsToMm (circle_x op), pointsToMm (mmToPoints widthMm - circle_x op),
                  pointsToMm (circle_y op), pointsToMm (mmToPoints heightMm - circle_y op)))
          (take 4 (filter is_circle ops)) =
        [(37.5, widthMm - 37.5, 37.5, heightMm - 37.5),
         (widthMm - 37.5, 37.5, 37.5, heightMm - 37.5),
         (37.5, widthMm - 37.5, heightMm - 37.5, 37.5),
         (widthMm - 37.5, 37.5, heightMm - 37.5, 37.5)]
    \<and> (75 \<le> widthMm \<longrightarrow>
          (\<forall>op \<in> set (take 4 (filter is_circle ops)).
             nearest_edge_distance (mmToPoints widthMm) (circle_x op) = mmToPoints 37.5))
    \<and> (75 \<le> heightMm \<longrightarrow>
          (\<forall>op \<in> set (take 4 (filter is_circle ops)).
             nearest_edge_distance (mmToPoints heightMm) (circle_y op) = mmToPoints 37.5))
    \<and> (\<forall>op \<in> set ops. is_circle op \<longrightarrow> circle_size op = mmToPoints 6)"
proof -
  let ?W = "mmToPoints widthMm" and ?H = "mmToPoints heightMm"
    and ?W64 = "mmToPoints64 widthMm" and ?H64 = "mmToPoints64 heightMm" and ?f = "cmyk c m y k"
  let ?ops = "baseLayer ?W ?H @ innerRectangle ?W ?H ?f (cmyk c' m' y' k')
      @ cornerCircles ?W ?H ?f @ horizontalCircles ?W ?W64 ?H ?f @ verticalCircles ?W ?H ?H64 ?f
      @ textLayer font text ?W ?H centerText fontSizeMm ?f"
  let ?corners = "[DrawCircle (mmToPoints 37.5) (mmToPoints 37.5) (mmToPoints 6) ?f,
         DrawCircle (mmToPoints (widthMm - 37.5)) (mmToPoints 37.5) (mmToPoints 6) ?f,
         DrawCircle (mmToPoints 37.5) (mmToPoints (heightMm - 37.5)) (mmToPoints 6) ?f,
         DrawCircle (mmToPoints (widthMm - 37.5)) (mmToPoints (heightMm - 37.5)) (mmToPoints 6) ?f]"
  have run: "generatePDF font text widthMm heightMm centerText fontSizeMm
      foregroundColor backgroundColor = Inr ?ops"
    by (rule generatePDF_Inr [OF fg bg])
  have circles: "filter is_circle ?ops =
      cornerCircles ?W ?H ?f @ horizontalCircles ?W ?W64 ?H ?f @ verticalCircles ?W ?H ?H64 ?f"
    by (rule filter_circles_generatePDF)
  have first: "take 4 (filter is_circle ?ops) = cornerCircles ?W ?H ?f"
    unfolding circles by (simp add: length_cornerCircles)
  have rest: "drop 4 (filter is_circle ?ops) =
      horizontalCircles ?W ?W64 ?H ?f @ verticalCircles ?W ?H ?H64 ?f"
    unfolding circles by (simp add: length_cornerCircles)
  have first': "take 4 (filter is_circle ?ops) = ?corners"
    unfolding first by (rule cornerCircles_mm)
  have dist: "map (\<lambda>op. (pointsToMm (circle_x op), pointsToMm (?W - circle_x op),
                  pointsToMm (circle_y op), pointsToMm (?H - circle_y op)))
          (take 4 (filter is_circle ?ops)) =
        [(37.5, widthMm - 37.5, 37.5, heightMm - 37.5),
         (widthMm - 37.5, 37.5, 37.5, heightMm - 37.5),
         (37.5, widthMm - 37.5, heightMm - 37.5, 37.5),
         (widthMm - 37.5, 37.5, heightMm - 37.5, 37.5)]"
    unfolding first'
    by (simp add: mmToPoints_diff [symmetric] pointsToMm_mmToPoints)
  have nearX: "75 \<le> widthMm \<longrightarrow>
      (\<forall>op \<in> set (take 4 (filter is_circle ?ops)).
         nearest_edge_distance ?W (circle_x op) = mmToPoints 37.5)"
  proof
    assume "75 \<le> widthMm"
    then have "2 * mmToPoints 37.5 \<le> ?W" and "0 \<le> mmToPoints 37.5"
      by (simp_all add: mmToPoints_def)
    from nearest_corner [OF this]
    show "\<forall>op \<in> set (take 4 (filter is_circle ?ops)).
        nearest_edge_distance ?W (circle_x op) = mmToPoints 37.5"
      unfolding first' by (simp add: mmToPoints_diff)
  qed
  have nearY: "75 \<le> heightMm \<longrightarrow>
      (\<forall>op \<in> set (take 4 (filter is_circle ?ops)).
         nearest_edge_distance ?H (circle_y op) = mmToPoints 37.5)"
  proof
    assume "75 \<le> heightMm"
    then have "2 * mmToPoints 37.5 \<le> ?H" and "0 \<le> mmToPoints 37.5"
      by (simp_all add: mmToPoints_def)
    from nearest_corner [OF this]
    show "\<forall>op \<in> set (take 4 (filter is_circle ?ops)).
        nearest_edge_distance ?H (circle_y op) = mmToPoints 37.5"
      unfolding first' by (simp add: mmToPoints_diff)
  qed
  have radius: "\<forall>op \<in> set ?ops. is_circle op \<longrightarrow> circle_size op = mmToPoints 6"
  proof (intro ballI impI)
    fix op assume "op \<in> set ?ops" and "is_circle op"
    then have "op \<in> set (filter is_circle ?ops)" by (simp only: set_filter mem_Collect_eq)
    then have "op \<in> set (cornerCircles ?W ?H ?f @ horizontalCircles ?W ?W64 ?H ?f
        @ verticalCircles ?W ?H ?H64 ?f)"
      by (simp only: circles)
    then have "op \<in> set (cornerCircles ?W ?H ?f) \<or> op \<in> set (horizontalCircles ?W ?W64 ?H ?f)
        \<or> op \<in> set (verticalCircles ?W ?H ?H64 ?f)"
      by (simp only: set_append Un_iff)
    then have "circle_size op = circleRadius"
      by (auto dest: cornerCircles_all horizontalCircles_all verticalCircles_all)
    then show "circle_size op = mmToPoints 6" by (simp add: circleRadius_def)
  qed
  show ?thesis
    by (rule exI [of _ ?ops], intro conjI) (rule run first' rest dist nearX nearY radius)+
qed

theorem corner_circles_fixed_witness:
  "getColor ''black'' = Tuple (0, 0, 0, 1) \<and> getColor ''yellow'' = Tuple (0, 0, 1, 0)
   \<and> (75 :: real) \<le> 1000 \<and> (75 :: real) \<le> 700
   \<and> (\<exists>ops. generatePDF monospace ''Banner PVC'' 1000 700 True 25 ''black'' ''yellow'' = Inr ops
      \<and> take 4 (filter is_circle ops) =
          [DrawCircle (mmToPoints 37.5) (mmToPoints 37.5) (mmToPoints 6) (cmyk 0 0 0 1),
           DrawCircle (mmToPoints 962.5) (mmToPoints 37.5) (mmToPoints 6) (cmyk 0 0 0 1),
           DrawCircle (mmToPoints 37.5) (mmToPoints 662.5) (mmToPoints 6) (cmyk 0 0 0 1),
           DrawCircle (mmToPoints 962.5) (mmToPoints 662.5) (mmToPoints 6) (cmyk 0 0 0 1)]
      \<and> map (\<lambda>op. (pointsToMm (nearest_edge_distance (mmToPoints 1000) (circle_x op)),
                    pointsToMm (nearest_edge_distance (mmToPoints 700) (circle_y op))))
            (take 4 (filter is_circle ops)) =
          [(37.5, 37.5), (37.5, 37.5), (37.5, 37.5), (37.5, 37.5)]
      \<and> (\<forall>op \<in> set ops. is_circle op \<longrightarrow> circle_size op = mmToPoints 6))"
proof -
  have fg: "getColor ''black'' = Tuple (0, 0, 0, 1)" by (rule getColor_black)
  have bg: "getColor ''yellow'' = Tuple (0, 0, 1, 0)" by (rule getColor_yellow)
  have w: "(75 :: real) \<le> 1000" and h: "(75 :: real) \<le> 700" by simp_all
  from corner_circles_fixed [OF fg bg, of monospace "''Banner PVC''" 1000 700 True 25]
  obtain ops where run: "generatePDF monospace ''Banner PVC'' 1000 700 True 25 ''black'' ''yellow''
                = Inr ops"
    and four: "take 4 (filter is_circle ops) =
          [DrawCircle (mmToPoints 37.5) (mmToPoints 37.5) (mmToPoints 6) (cmyk 0 0 0 1),
           DrawCircle (mmToPoints 962.5) (mmToPoints 37.5) (mmToPoints 6) (cmyk 0 0 0 1),
           DrawCircle (mmToPoints 37.5) (mmToPoints 662.5) (mmToPoints 6) (cmyk 0 0 0 1),
           DrawCircle (mmToPoints 962.5) (mmToPoints 662.5) (mmToPoints 6) (cmyk 0 0 0 1)]"
    and nearX: "75 \<le> (1000 :: real) \<longrightarrow>
          (\<forall>op \<in> set (take 4 (filter is_circle ops)).
             nearest_edge_distance (mmToPoints 1000) (circle_x op) = mmToPoints 37.5)"
    and nearY: "75 \<le> (700 :: real) \<longrightarrow>
          (\<forall>op \<in> set (take 4 (filter is_circle ops)).
             nearest_edge_distance (mmToPoints 700) (circle_y op) = mmToPoints 37.5)"
    and radius: "\<forall>op \<in> set ops. is_circle op \<longrightarrow> circle_size op = mmToPoints 6"
    by auto
  from nearX nearY w h have near: "map (\<lambda>op. (pointsToMm (nearest_edge_distance (mmToPoints 1000) (circle_x op)),
                    pointsToMm (nearest_edge_distance (mmToPoints 700) (circle_y op))))
            (take 4 (filter is_circle ops)) =
          [(37.5, 37.5), (37.5, 37.5), (37.5, 37.5), (37.5, 37.5)]"
    unfolding four by (simp add: pointsToMm_mmToPoints)
  show ?thesis
    by (intro conjI exI [of _ ops]) (rule fg bg w h run four near radius)+
qed

text \<open>
  Claim C4 (colour resolution). The table has 18 names with components in \<open>[0, 1]\<close>
  (\<open>colors_names\<close>, \<open>colors_count\<close>, \<open>colors_range\<close>), and a name that is neither in
  the table nor inherited resolves to black (\<open>getColor_fallback\<close>). The claim says that
  every name outside the table resolves to the tuple of black without an error. The
  name \<^verbatim>\<open>constructor\<close> is outside the table, yet \<^verbatim>\<open>getColor\<close> returns the inherited
  member for it, not the tuple of black, and \<^verbatim>\<open>generatePDF\<close> then fails with a
  \<^verbatim>\<open>TypeError\<close> when it destructures the result.
\<close>

theorem getColor_constructor:
  "''constructor'' \<notin> set (map fst colors)
   \<and> getColor ''constructor'' = Builtin ''constructor''
   \<and> getColor ''black'' = Tuple (0, 0, 0, 1)
   \<and> getColor ''constructor'' \<noteq> getColor ''black''
   \<and> generatePDF font text widthMm heightMm centerText fontSizeMm ''constructor'' backgroundColor
       = Inl TypeError"
proof -
  have a: "''constructor'' \<notin> set (map fst colors)"
    unfolding colors_names by simp
  have b: "getColor ''constructor'' = Builtin ''constructor''"
    by (rule getColor_inherited) (simp add: objectPrototype_def)
  have c: "generatePDF font text widthMm heightMm centerText fontSizeMm ''constructor''
      backgroundColor = Inl TypeError"
    by (simp add: generatePDF_def b)
  from a b c show ?thesis by (simp add: getColor_black)
qed


text \<open>
  Claim C6 (line count and vertical progression). A text with \<open>k\<close> line feeds gives
  \<open>k + 1\<close> text operations, one per line of the split in order, empty lines included
  (joining their contents with line feeds gives the text back). Line \<open>i\<close> has the
  baseline \<open>startY - i * lineSpacing\<close> with \<open>lineSpacing = fontSize * 1.3\<close>, so each
  baseline is exactly \<open>lineSpacing\<close> below the previous one, strictly below for a
  positive font size. A text without a line feed gives one operation, and its
  \<open>totalTextHeight\<close> is \<open>fontSize\<close>.
\<close>

theorem text_line_progression:
  assumes fg: "getColor foregroundColor = Tuple (c, m, y, k)"
    and bg: "getColor backgroundColor = Tuple (c', m', y', k')"
  shows "\<exists>ops. generatePDF font text widthMm heightMm centerText fontSizeMm
                  foregroundColor backgroundColor = Inr ops
    \<and> length (filter is_text ops) = length (filter (\<lambda>ch. ch = CHR 0x0A) text) + 1
    \<and> map text_line (filter is_text ops) = split_newline text
    \<and> join_newline (map text_line (filter is_text ops)) = text
    \<and> (\<forall>i < length (filter is_text ops).
          text_y (filter is_text ops ! i) =
            startY centerText (mmToPoints heightMm) fontSizeMm (split_newline text)
              - real i * (mmToPoints fontSizeMm * 1.3))
    \<and> (\<forall>i. Suc i < length (filter is_text ops) \<longrightarrow>
          text_y (filter is_text ops ! Suc i)
            = text_y (filter is_text ops ! i) - mmToPoints fontSizeMm * 1.3)
    \<and> (0 < fontSizeMm \<longrightarrow>
          (\<forall>i. Suc i < length (filter is_text ops) \<longrightarrow>
             text_y (filter is_text ops ! Suc i) < text_y (filter is_text ops ! i)))
    \<and> (length (filter (\<lambda>ch. ch = CHR 0x0A) text) = 0 \<longrightarrow>
          length (filter is_text ops) = 1
          \<and> totalTextHeight fontSizeMm (split_newline text) = mmToPoints fontSizeMm)"
proof -
  let ?W = "mmToPoints widthMm" and ?H = "mmToPoints heightMm"
    and ?W64 = "mmToPoints64 widthMm" and ?H64 = "mmToPoints64 heightMm" and ?f = "cmyk c m y k"
  let ?T = "textLayer font text ?W ?H centerText fontSizeMm ?f"
  let ?ops = "baseLayer ?W ?H @ innerRectangle ?W ?H ?f (cmyk c' m' y' k')
      @ cornerCircles ?W ?H ?f @ horizontalCircles ?W ?W64 ?H ?f @ verticalCircles ?W ?H ?H64 ?f @ ?T"
  let ?k = "length (filter (\<lambda>ch. ch = CHR 0x0A) text)"
  let ?ls = "mmToPoints fontSizeMm * 1.3"
  have run: "generatePDF font text widthMm heightMm centerText fontSizeMm
      foregroundColor backgroundColor = Inr ?ops"
    by (rule generatePDF_Inr [OF fg bg])
  have texts: "filter is_text ?ops = ?T"
    by (rule filter_text_generatePDF)
  have lenT: "length ?T = ?k + 1"
    by (simp add: length_textLayer length_split_newline)
  have y: "text_y (?T ! i) =
      startY centerText ?H fontSizeMm (split_newline text) - real i * ?ls" if "i < length ?T" for i
    using that by (simp add: length_textLayer textLayer_nth lineSpacing_def fontSize_def)
  have step: "text_y (?T ! Suc i) = text_y (?T ! i) - ?ls" if "Suc i < length ?T" for i
  proof -
    from that have i: "i < length ?T" by simp
    have "text_y (?T ! Suc i) =
        startY centerText ?H fontSizeMm (split_newline text) - real (Suc i) * ?ls"
      by (rule y [OF that])
    also have "\<dots> = startY centerText ?H fontSizeMm (split_newline text) - real i * ?ls - ?ls"
      by (rule step_down)
    also have "\<dots> = text_y (?T ! i) - ?ls"
      by (simp only: y [OF i])
    finally show ?thesis .
  qed
  have len: "length (filter is_text ?ops) = ?k + 1"
    unfolding texts by (rule lenT)
  have content: "map text_line (filter is_text ?ops) = split_newline text"
    unfolding texts by (rule text_line_textLayer)
  have joined: "join_newline (map text_line (filter is_text ?ops)) = text"
    unfolding content by (rule join_split_newline)
  have ys: "\<forall>i < length (filter is_text ?ops).
          text_y (filter is_text ?ops ! i) =
            startY centerText ?H fontSizeMm (split_newline text) - real i * ?ls"
    unfolding texts using y by blast
  have steps: "\<forall>i. Suc i < length (filter is_text ?ops) \<longrightarrow>
          text_y (filter is_text ?ops ! Suc i) = text_y (filter is_text ?ops ! i) - ?ls"
    unfolding texts using step by blast
  have strict: "0 < fontSizeMm \<longrightarrow>
          (\<forall>i. Suc i < length (filter is_text ?ops) \<longrightarrow>
             text_y (filter is_text ?ops ! Suc i) < text_y (filter is_text ?ops ! i))"
  proof (intro impI allI)
    fix i assume "0 < fontSizeMm" and "Suc i < length (filter is_text ?ops)"
    then have "0 < ?ls" and "text_y (filter is_text ?ops ! Suc i)
        = text_y (filter is_text ?ops ! i) - ?ls"
      using steps by (simp_all add: mmToPoints_def)
    then show "text_y (filter is_text ?ops ! Suc i) < text_y (filter is_text ?ops ! i)"
      by linarith
  qed
  have single: "?k = 0 \<longrightarrow> length (filter is_text ?ops) = 1
          \<and> totalTextHeight fontSizeMm (split_newline text) = mmToPoints fontSizeMm"
    using len by (simp add: totalTextHeight_def length_split_newline fontSize_def Let_def)
  show ?thesis
    by (rule exI [of _ ?ops], intro conjI) (rule run len content joined ys steps strict single)+
qed

theorem text_line_progression_witness:
  "getColor ''black'' = Tuple (0, 0, 0, 1) \<and> getColor ''yellow'' = Tuple (0, 0, 1, 0)
   \<and> (0 :: real) < 25
   \<and> (\<exists>ops. generatePDF (\<lambda>line size. real (length line) * size / 2)
                [CHR ''A'', CHR 0x0A, CHR 0x0A, CHR ''B''] 1000 700 True 25 ''black'' ''yellow''
                = Inr ops
      \<and> length (filter is_text ops) = 3
      \<and> map text_line (filter is_text ops) = [''A'', [], ''B'']
      \<and> map (\<lambda>op. pointsToMm (text_y op)) (filter is_text ops) = [370, 337.5, 305]
      \<and> text_y (filter is_text ops ! 1) < text_y (filter is_text ops ! 0)
      \<and> text_y (filter is_text ops ! 2) < text_y (filter is_text ops ! 1))
   \<and> length (filter (\<lambda>ch. ch = CHR 0x0A) ''Banner PVC'') = 0
   \<and> (\<exists>ops. generatePDF (\<lambda>line size. real (length line) * size / 2)
                ''Banner PVC'' 1000 700 True 25 ''black'' ''yellow'' = Inr ops
      \<and> length (filter is_text ops) = 1
      \<and> totalTextHeight 25 (split_newline ''Banner PVC'') = mmToPoints 25)"
proof -
  let ?font = "\<lambda>line size. real (length line) * size / 2"
  let ?text = "[CHR ''A'', CHR 0x0A, CHR 0x0A, CHR ''B'']"
  have fg: "getColor ''black'' = Tuple (0, 0, 0, 1)" by (rule getColor_black)
  have bg: "getColor ''yellow'' = Tuple (0, 0, 1, 0)" by (rule getColor_yellow)
  have pos: "(0 :: real) < 25" by simp
  have lines: "split_newline ?text = [''A'', [], ''B'']"
    by (simp add: split_newline_def)
  have start: "startY True (mmToPoints 700) 25 [''A'', [], ''B''] = mmToPoints 370"
    by (simp add: startY_centered mmToPoints_def)
  from text_line_progression [OF fg bg, of ?font ?text 1000 700 True 25]
  obtain ops where run: "generatePDF ?font ?text 1000 700 True 25 ''black'' ''yellow'' = Inr ops"
    and len: "length (filter is_text ops) = length (filter (\<lambda>ch. ch = CHR 0x0A) ?text) + 1"
    and content: "map text_line (filter is_text ops) = split_newline ?text"
    and ys: "\<forall>i < length (filter is_text ops).
          text_y (filter is_text ops ! i) =
            startY True (mmToPoints 700) 25 (split_newline ?text) - real i * (mmToPoints 25 * 1.3)"
    and strict: "0 < (25 :: real) \<longrightarrow>
          (\<forall>i. Suc i < length (filter is_text ops) \<longrightarrow>
             text_y (filter is_text ops ! Suc i) < text_y (filter is_text ops ! i))"
    by blast
  from len have len3: "length (filter is_text ops) = 3" by simp
  from content have content3: "map text_line (filter is_text ops) = [''A'', [], ''B'']"
    by (simp only: lines)
  from ys len3 have "text_y (filter is_text ops ! 0) = mmToPoints 370"
    and "text_y (filter is_text ops ! 1) = mmToPoints 337.5"
    and "text_y (filter is_text ops ! 2) = mmToPoints 305"
    unfolding lines start by (simp_all add: mmToPoints_def)
  then have ys3: "map (\<lambda>op. pointsToMm (text_y op)) (filter is_text ops) = [370, 337.5, 305]"
    by (simp add: map_of_length_3 [OF len3] pointsToMm_mmToPoints)
  from strict len3 have down1: "text_y (filter is_text ops ! 1) < text_y (filter is_text ops ! 0)"
    and down2: "text_y (filter is_text ops ! 2) < text_y (filter is_text ops ! 1)"
    by (simp_all add: numeral_2_eq_2 numeral_3_eq_3)
  have many: "\<exists>ops. generatePDF ?font ?text 1000 700 True 25 ''black'' ''yellow'' = Inr ops
      \<and> length (filter is_text ops) = 3
      \<and> map text_line (filter is_text ops) = [''A'', [], ''B'']
      \<and> map (\<lambda>op. pointsToMm (text_y op)) (filter is_text ops) = [370, 337.5, 305]
      \<and> text_y (filter is_text ops ! 1) < text_y (filter is_text ops ! 0)
      \<and> text_y (filter is_text ops ! 2) < text_y (filter is_text ops ! 1)"
    by (intro conjI exI [of _ ops]) (rule run len3 content3 ys3 down1 down2)+
  have k0: "length (filter (\<lambda>ch. ch = CHR 0x0A) ''Banner PVC'') = 0" by simp
  from text_line_progression [OF fg bg, of ?font "''Banner PVC''" 1000 700 True 25]
  obtain ops1 where run1: "generatePDF ?font ''Banner PVC'' 1000 700 True 25 ''black'' ''yellow''
      = Inr ops1"
    and single: "length (filter (\<lambda>ch. ch = CHR 0x0A) ''Banner PVC'') = 0 \<longrightarrow>
          length (filter is_text ops1) = 1
          \<and> totalTextHeight 25 (split_newline ''Banner PVC'') = mmToPoints 25"
    by blast
  from single k0 have one: "length (filter is_text ops1) = 1"
    and height: "totalTextHeight 25 (split_newline ''Banner PVC'') = mmToPoints 25"
    by blast+
  have once: "\<exists>ops. generatePDF ?font ''Banner PVC'' 1000 700 True 25 ''black'' ''yellow'' = Inr ops
      \<and> length (filter is_text ops) = 1
      \<and> totalTextHeight 25 (split_newline ''Banner PVC'') = mmToPoints 25"
    by (intro conjI exI [of _ ops1]) (rule run1 one height)+
  show ?thesis
    by (intro conjI) (rule fg bg pos many k0 once)+
qed

text \<open>
  Claim C7 (panel placement, no validation). For every width and height, also those
  smaller than twice the margin, and colour names that resolve to tuples, the page is
  produced and its second operation is the panel: at \<open>x = y = 25\<close> mm, of width
  \<open>width - 2 * 25\<close> mm and height \<open>height - 2 * 25\<close> mm (converted to points), filled
  with the background colour, with a border of 0.5 mm in the foreground colour. The base
  and the panel are the only rectangles. No hypothesis restricts the dimensions: the
  witness is a banner of 30 mm by 10 mm, whose panel has negative width and height.
\<close>

theorem panel_placement:
  assumes fg: "getColor foregroundColor = Tuple (c, m, y, k)"
    and bg: "getColor backgroundColor = Tuple (c', m', y', k')"
  shows "\<exists>ops. generatePDF font text widthMm heightMm centerText fontSizeMm
                  foregroundColor backgroundColor = Inr ops
    \<and> ops ! 1 =
        DrawRectangle (mmToPoints 25) (mmToPoints 25)
          (mmToPoints (widthMm - 2 * 25)) (mmToPoints (heightMm - 2 * 25))
          (cmyk c' m' y' k') (Some (cmyk c m y k)) (Some (mmToPoints 0.5))
    \<and> filter is_rectangle ops = [ops ! 0, ops ! 1]"
proof -
  let ?W = "mmToPoints widthMm" and ?H = "mmToPoints heightMm"
    and ?W64 = "mmToPoints64 widthMm" and ?H64 = "mmToPoints64 heightMm" and ?f = "cmyk c m y k"
  let ?ops = "baseLayer ?W ?H @ innerRectangle ?W ?H ?f (cmyk c' m' y' k')
      @ cornerCircles ?W ?H ?f @ horizontalCircles ?W ?W64 ?H ?f @ verticalCircles ?W ?H ?H64 ?f
      @ textLayer font text ?W ?H centerText fontSizeMm ?f"
  have run: "generatePDF font text widthMm heightMm centerText fontSizeMm
      foregroundColor backgroundColor = Inr ?ops"
    by (rule generatePDF_Inr [OF fg bg])
  have rects: "filter is_rectangle ?ops = baseLayer ?W ?H @ innerRectangle ?W ?H ?f (cmyk c' m' y' k')"
    by (rule filter_rectangles_generatePDF)
  have panel: "?ops ! 1 =
        DrawRectangle (mmToPoints 25) (mmToPoints 25)
          (mmToPoints (widthMm - 2 * 25)) (mmToPoints (heightMm - 2 * 25))
          (cmyk c' m' y' k') (Some ?f) (Some (mmToPoints 0.5))"
    unfolding innerRectangle_mm by (simp add: baseLayer_def)
  have both: "filter is_rectangle ?ops = [?ops ! 0, ?ops ! 1]"
    unfolding rects by (simp add: baseLayer_def innerRectangle_def Let_def)
  show ?thesis
    by (rule exI [of _ ?ops], intro conjI) (rule run panel both)+
qed

theorem panel_placement_witness:
  "getColor ''black'' = Tuple (0, 0, 0, 1) \<and> getColor ''yellow'' = Tuple (0, 0, 1, 0)
   \<and> (\<exists>ops. generatePDF (\<lambda>line size. 0) ''Banner PVC'' 30 10 True 25 ''black'' ''yellow''
                = Inr ops
      \<and> ops ! 1 =
          DrawRectangle (mmToPoints 25) (mmToPoints 25) (mmToPoints (- 20)) (mmToPoints (- 40))
            (cmyk 0 0 1 0) (Some (cmyk 0 0 0 1)) (Some (mmToPoints 0.5))
      \<and> mmToPoints (- 20) < 0 \<and> mmToPoints (- 40) < 0)"
proof -
  have fg: "getColor ''black'' = Tuple (0, 0, 0, 1)" by (rule getColor_black)
  have bg: "getColor ''yellow'' = Tuple (0, 0, 1, 0)" by (rule getColor_yellow)
  from panel_placement [OF fg bg, of "\<lambda>line size. 0" "''Banner PVC''" 30 10 True 25]
  obtain ops where "generatePDF (\<lambda>line size. 0) ''Banner PVC'' 30 10 True 25 ''black'' ''yellow''
                = Inr ops"
    and "ops ! 1 =
          DrawRectangle (mmToPoints 25) (mmToPoints 25) (mmToPoints (- 20)) (mmToPoints (- 40))
            (cmyk 0 0 1 0) (Some (cmyk 0 0 0 1)) (Some (mmToPoints 0.5))"
    by auto
  moreover have "mmToPoints (- 20) < 0 \<and> mmToPoints (- 40) < 0"
    by (simp add: mmToPoints_def)
  ultimately show ?thesis using fg bg by blast
qed

text \<open>
  Claim C8 (left-aligned text). With \<open>centerText = False\<close> every line is drawn at the
  same \<open>x\<close>, the conversion of \<open>marginMm + 5 = 30\<close> mm, whatever the line and its
  measured width, and line \<open>i\<close> at \<open>y = pageHeight - mmToPoints 25 - i * lineSpacing\<close>:
  the first baseline is 25 mm below the top of the page.
\<close>

theorem left_aligned_text_layout:
  assumes fg: "getColor foregroundColor = Tuple (c, m, y, k)"
    and bg: "getColor backgroundColor = Tuple (c', m', y', k')"
  shows "\<exists>ops. generatePDF font text widthMm heightMm False fontSizeMm
                  foregroundColor backgroundColor = Inr ops
    \<and> length (filter is_text ops) = length (split_newline text)
    \<and> (\<forall>i < length (split_newline text).
          filter is_text ops ! i =
            DrawText (split_newline text ! i)
              (mmToPoints 30)
              (mmToPoints heightMm - mmToPoints 25 - real i * (mmToPoints fontSizeMm * 1.3))
              (mmToPoints fontSizeMm) (cmyk c m y k))
    \<and> mmToPoints 30 = mmToPoints (marginMm + 5)"
proof -
  let ?W = "mmToPoints widthMm" and ?H = "mmToPoints heightMm"
    and ?W64 = "mmToPoints64 widthMm" and ?H64 = "mmToPoints64 heightMm" and ?f = "cmyk c m y k"
  let ?T = "textLayer font text ?W ?H False fontSizeMm ?f"
  let ?ops = "baseLayer ?W ?H @ innerRectangle ?W ?H ?f (cmyk c' m' y' k')
      @ cornerCircles ?W ?H ?f @ horizontalCircles ?W ?W64 ?H ?f @ verticalCircles ?W ?H ?H64 ?f @ ?T"
  have run: "generatePDF font text widthMm heightMm False fontSizeMm
      foregroundColor backgroundColor = Inr ?ops"
    by (rule generatePDF_Inr [OF fg bg])
  have texts: "filter is_text ?ops = ?T"
    by (rule filter_text_generatePDF)
  have len: "length (filter is_text ?ops) = length (split_newline text)"
    unfolding texts by (rule length_textLayer)
  have each: "\<forall>i < length (split_newline text).
          filter is_text ?ops ! i =
            DrawText (split_newline text ! i)
              (mmToPoints 30)
              (?H - mmToPoints 25 - real i * (mmToPoints fontSizeMm * 1.3))
              (mmToPoints fontSizeMm) ?f"
    unfolding texts
    by (simp add: textLayer_nth startY_left fontSize_def lineSpacing_def marginMm_def)
  have indent: "mmToPoints 30 = mmToPoints (marginMm + 5)"
    by (simp add: marginMm_def)
  show ?thesis
    by (rule exI [of _ ?ops], intro conjI) (rule run len each indent)+
qed

theorem left_aligned_text_layout_witness:
  "getColor ''black'' = Tuple (0, 0, 0, 1) \<and> getColor ''yellow'' = Tuple (0, 0, 1, 0)
   \<and> (\<exists>ops. generatePDF (\<lambda>line size. real (length line) * size / 2)
                [CHR ''A'', CHR ''B'', CHR 0x0A, CHR ''C''] 1000 700 False 25 ''black'' ''yellow''
                = Inr ops
      \<and> map (\<lambda>op. (text_line op, pointsToMm (text_x op), pointsToMm (text_y op)))
            (filter is_text ops) =
          [(''AB'', 30, 675), (''C'', 30, 642.5)])"
proof -
  let ?text = "[CHR ''A'', CHR ''B'', CHR 0x0A, CHR ''C'']"
  have fg: "getColor ''black'' = Tuple (0, 0, 0, 1)" by (rule getColor_black)
  have bg: "getColor ''yellow'' = Tuple (0, 0, 1, 0)" by (rule getColor_yellow)
  have lines: "split_newline ?text = [''AB'', ''C'']"
    by (simp add: split_newline_def)
  from left_aligned_text_layout [OF fg bg, of "\<lambda>line size. real (length line) * size / 2" ?text
      1000 700 25]
  obtain ops where run: "generatePDF (\<lambda>line size. real (length line) * size / 2)
                ?text 1000 700 False 25 ''black'' ''yellow'' = Inr ops"
    and len: "length (filter is_text ops) = length (split_newline ?text)"
    and each: "\<forall>i < length (split_newline ?text).
          filter is_text ops ! i =
            DrawText (split_newline ?text ! i)
              (mmToPoints 30)
              (mmToPoints 700 - mmToPoints 25 - real i * (mmToPoints 25 * 1.3))
              (mmToPoints 25) (cmyk 0 0 0 1)"
    by blast
  from len have "filter is_text ops = [filter is_text ops ! 0, filter is_text ops ! 1]"
    unfolding lines by (intro list_of_length_2) simp
  moreover from each have "filter is_text ops ! 0
      = DrawText ''AB'' (mmToPoints 30) (mmToPoints 675) (mmToPoints 25) (cmyk 0 0 0 1)"
    unfolding lines by (simp add: mmToPoints_def)
  moreover from each have "filter is_text ops ! 1
      = DrawText ''C'' (mmToPoints 30) (mmToPoints 642.5) (mmToPoints 25) (cmyk 0 0 0 1)"
    unfolding lines by (simp add: mmToPoints_def)
  ultimately have positions: "map (\<lambda>op. (text_line op, pointsToMm (text_x op), pointsToMm (text_y op)))
            (filter is_text ops) =
          [(''AB'', 30, 675), (''C'', 30, 642.5)]"
    by (simp add: pointsToMm_mmToPoints)
  show ?thesis
    by (intro conjI exI [of _ ops]) (rule fg bg run positions)+
qed


text \<open>
  Claim C10 (the base layer does not depend on the colours). The claim is about every
  pair of runs that differ only in the colour names. The page begins with the white
  rectangle from \<open>(0, 0)\<close> of the page's width and height whenever both names resolve to
  tuples (\<open>base_layer_white\<close>), and two such runs draw the same one
  (\<open>base_layer_same\<close>). The runs with the foreground names \<^verbatim>\<open>black\<close> and
  \<^verbatim>\<open>constructor\<close> differ only in a colour name: the first draws the base rectangle, the
  second raises before the first drawing call and draws none.
\<close>

theorem base_layer_lost_for_inherited_name:
  "(\<exists>ops. generatePDF font text widthMm heightMm centerText fontSizeMm ''black'' ''yellow''
            = Inr ops
      \<and> ops ! 0 = DrawRectangle 0 0 (mmToPoints widthMm) (mmToPoints heightMm) (cmyk 0 0 0 0)
                    None None)
   \<and> generatePDF font text widthMm heightMm centerText fontSizeMm ''constructor'' ''yellow''
       = Inl TypeError
   \<and> page_of (generatePDF font text widthMm heightMm centerText fontSizeMm
        ''constructor'' ''yellow'') = []"
proof -
  have drawn: "\<exists>ops. generatePDF font text widthMm heightMm centerText fontSizeMm
        ''black'' ''yellow'' = Inr ops
      \<and> ops ! 0 = DrawRectangle 0 0 (mmToPoints widthMm) (mmToPoints heightMm) (cmyk 0 0 0 0)
                    None None"
    by (rule base_layer_white [OF getColor_black getColor_yellow])
  have "getColor ''constructor'' = Builtin ''constructor''"
    by (rule getColor_inherited) (simp add: objectPrototype_def)
  then have raised: "generatePDF font text widthMm heightMm centerText fontSizeMm
      ''constructor'' ''yellow'' = Inl TypeError"
    by (simp add: generatePDF_def)
  have none: "page_of (generatePDF font text widthMm heightMm centerText fontSizeMm
        ''constructor'' ''yellow'') = []"
    unfolding raised by (simp add: page_of_def)
  show ?thesis
    by (intro conjI) (rule drawn raised none)+
qed

end
